theory Spec2Isabelle
  imports Main "HOL-Library.Char_ord" "HOL-Library.List_Lexorder"
begin

section \<open>Pub-Grab: publication lists from the CRISTIN registry\<close>

text \<open>
  The program \<^verbatim>\<open>pubgrab.py\<close> resolves an author to a CRISTIN person identifier,
  fetches the author's publication records, sorts them by year, renders each journal
  article as one HTML paragraph and writes the paragraphs into an HTML file.

  Modelling decisions.
  \<^item> A Python exception is a value of the type \<open>error\<close>; a function that may raise
    returns \<open>error + 'a\<close>, with \<open>Inl\<close> for the exception.
  \<^item> The JSON documents of the registry are typed as the docstring of
    \<^verbatim>\<open>pubs_by\<close> shows them: every leaf field that the program reads is a string
    when it is present, and every key may be absent (\<open>None\<close> in the record), which is
    where the program raises \<^verbatim>\<open>KeyError\<close>.
  \<^item> The field \<^verbatim>\<open>person\<close> is a list of author dictionaries, one author
    dictionary, or a value of another type: the three cases the program tells apart with
    \<^verbatim>\<open>type(...) == list\<close> and \<^verbatim>\<open>type(...) == dict\<close>.
  \<^item> \<^verbatim>\<open>str.isupper\<close> belongs to Python, not to the program: it is the parameter
    \<open>isupper\<close> of the functions that render authors. So is the parser behind
    \<^verbatim>\<open>int(author)\<close>, the parameter \<open>py_int\<close> of the resolver.
  \<^item> The registry is a pair of functions from requests to responses, and every function
    that sends requests returns the list of the requests sent. The call of
    \<^verbatim>\<open>logging.debug\<close> and the file system are not part of the model: the script
    returns the name and the text of the file it writes.
\<close>

subsection \<open>Exceptions\<close>

datatype error =
    KeyError string
  | ValueError
  | RequestException
  | JSONDecodeError

text \<open>\<^verbatim>\<open>d[key]\<close> on a dictionary: the value, or \<^verbatim>\<open>KeyError(key)\<close>.\<close>

definition getitem :: "'a option \<Rightarrow> string \<Rightarrow> error + 'a" where
  "getitem field key = (case field of None \<Rightarrow> Inl (KeyError key) | Some v \<Rightarrow> Inr v)"

text \<open>Sequencing of two computations that may raise: the first exception wins.\<close>

definition and_then :: "error + 'a \<Rightarrow> ('a \<Rightarrow> error + 'b) \<Rightarrow> error + 'b" where
  "and_then m f = (case m of Inl e \<Rightarrow> Inl e | Inr v \<Rightarrow> f v)"

text \<open>
  \<^verbatim>\<open>try: x = <lookup> except KeyError: x = ''\<close>: a \<^verbatim>\<open>KeyError\<close> is replaced by
  the empty string, any other exception propagates.
\<close>

definition except_KeyError :: "error + string \<Rightarrow> error + string" where
  "except_KeyError m =
     (case m of Inl (KeyError k) \<Rightarrow> Inr '''' | Inl e \<Rightarrow> Inl e | Inr v \<Rightarrow> Inr v)"

subsection \<open>Publication records\<close>

record author_entry =
  fornavn :: "string option"
  etternavn :: "string option"

datatype person_field =
    PersonList "author_entry list"
  | PersonDict author_entry
  | PersonOther

record fellesdata_dict =
  tittel :: "string option"
  ar :: "string option"
  person :: "person_field option"

record tidsskrift_dict =
  navn :: "string option"

record artikkel_dict =
  tidsskrift :: "tidsskrift_dict option"
  artikkelnr :: "string option"
  volum :: "string option"
  doi :: "string option"

text \<open>
  \<^verbatim>\<open>kategoridata\<close> is a dictionary from category names to category data; the
  program iterates over its items, so it is kept as the list of its items in iteration
  order. A Python dictionary has no duplicate keys: the keys of the list are distinct.
  Only the value stored under \<^verbatim>\<open>'tidsskriftsartikkel'\<close> is ever read.
\<close>

record resultat =
  fellesdata :: "fellesdata_dict option"
  kategoridata :: "(string \<times> artikkel_dict) list option"

subsection \<open>The author list of one record (lines 203 to 221)\<close>

text \<open>\<^verbatim>\<open>''.join(c for c in Short_firstname if c.isupper())\<close>\<close>

definition Uppercase_firstname :: "(char \<Rightarrow> bool) \<Rightarrow> string \<Rightarrow> string" where
  "Uppercase_firstname isupper Short_firstname = filter isupper Short_firstname"

text \<open>
  The loop over a list of authors; \<open>authors\<close> is the string built so far. The given
  name is read before the surname, so a missing \<^verbatim>\<open>fornavn\<close> is reported first.
\<close>

fun person_loop :: "(char \<Rightarrow> bool) \<Rightarrow> author_entry list \<Rightarrow> string \<Rightarrow> error + string" where
  "person_loop isupper [] authors = Inr authors"
| "person_loop isupper (k # ks) authors =
     and_then (getitem (fornavn k) ''fornavn'') (\<lambda>Short_firstname.
     and_then (getitem (etternavn k) ''etternavn'') (\<lambda>surname.
       person_loop isupper ks
         (authors @ ((surname @ '' '' @ Uppercase_firstname isupper Short_firstname) @ '', ''))))"

text \<open>\<^verbatim>\<open>authors[:-2]\<close>: all but the last two characters, empty when there are fewer.\<close>

definition drop_last2 :: "string \<Rightarrow> string" where
  "drop_last2 authors = take (length authors - 2) authors"

definition authors_of_person :: "(char \<Rightarrow> bool) \<Rightarrow> person_field \<Rightarrow> error + string" where
  "authors_of_person isupper p =
     (case p of
        PersonList ks \<Rightarrow>
          and_then (person_loop isupper ks '''') (\<lambda>authors. Inr (drop_last2 authors))
      | PersonDict k \<Rightarrow>
          and_then (getitem (fornavn k) ''fornavn'') (\<lambda>Short_firstname.
          and_then (getitem (etternavn k) ''etternavn'') (\<lambda>surname.
            Inr (surname @ '' '' @ Uppercase_firstname isupper Short_firstname)))
      | PersonOther \<Rightarrow> Inr '''')"

text \<open>
  The author string of record \<open>i\<close>: \<^verbatim>\<open>i['fellesdata']['person']\<close> is looked up,
  then rendered.
\<close>

definition authors_of :: "(char \<Rightarrow> bool) \<Rightarrow> resultat \<Rightarrow> error + string" where
  "authors_of isupper i =
     and_then (getitem (fellesdata i) ''fellesdata'') (\<lambda>f.
     and_then (getitem (person f) ''person'') (\<lambda>p.
       authors_of_person isupper p))"

text \<open>
  The rendering in the words of the specification: each author as surname, a space and
  the uppercase letters of the given name, the authors joined by a comma and a space.
\<close>

definition render_author :: "(char \<Rightarrow> bool) \<Rightarrow> string \<Rightarrow> string \<Rightarrow> string" where
  "render_author isupper surname given = surname @ '' '' @ filter isupper given"

fun join_with :: "string \<Rightarrow> string list \<Rightarrow> string" where
  "join_with sep [] = ''''"
| "join_with sep [x] = x"
| "join_with sep (x # y # ys) = x @ sep @ join_with sep (y # ys)"

text \<open>An author dictionary that has both names.\<close>

definition entry :: "string \<Rightarrow> string \<Rightarrow> author_entry" where
  "entry surname given = \<lparr>fornavn = Some given, etternavn = Some surname\<rparr>"

definition spec_author_list :: "(char \<Rightarrow> bool) \<Rightarrow> (string \<times> string) list \<Rightarrow> string" where
  "spec_author_list isupper names =
     join_with '', '' (map (\<lambda>(surname, given). render_author isupper surname given) names)"

subsection \<open>The function \<^verbatim>\<open>citation\<close> (lines 173 to 180)\<close>

text \<open>
  The body of \<^verbatim>\<open>citation\<close> is its docstring alone, so a call returns Python's
  \<^verbatim>\<open>None\<close>, whatever the argument is. The result type is the one its docstring
  announces, a citation, made optional for \<^verbatim>\<open>None\<close>.
\<close>

definition citation :: "resultat \<Rightarrow> string option" where
  "citation pub = None"

subsection \<open>One citation (lines 226 to 248)\<close>

text \<open>\<^verbatim>\<open>i['kategoridata']['tidsskriftsartikkel']\<close>\<close>

definition tidsskriftsartikkel_of :: "resultat \<Rightarrow> error + artikkel_dict" where
  "tidsskriftsartikkel_of i =
     and_then (getitem (kategoridata i) ''kategoridata'') (\<lambda>kd.
       getitem (map_of kd ''tidsskriftsartikkel'') ''tidsskriftsartikkel'')"

text \<open>
  The body of the branch \<^verbatim>\<open>key == 'tidsskriftsartikkel'\<close>, in the order of the
  source: title, year and journal name are read unguarded, article number, volume and
  DOI inside \<^verbatim>\<open>try ... except KeyError\<close>.
\<close>

definition HTML_string_of :: "resultat \<Rightarrow> string \<Rightarrow> error + string" where
  "HTML_string_of i authors =
     and_then (and_then (getitem (fellesdata i) ''fellesdata'') (\<lambda>f. getitem (tittel f) ''tittel''))
       (\<lambda>tittel_s.
     and_then (and_then (getitem (fellesdata i) ''fellesdata'') (\<lambda>f. getitem (ar f) ''ar''))
       (\<lambda>year.
     and_then (and_then (tidsskriftsartikkel_of i) (\<lambda>a.
               and_then (getitem (tidsskrift a) ''tidsskrift'') (\<lambda>t.
               and_then (getitem (navn t) ''navn'') (\<lambda>n. Inr (''<em>'' @ n @ ''</em>'')))))
       (\<lambda>journal.
     and_then (except_KeyError
                (and_then (tidsskriftsartikkel_of i) (\<lambda>a. getitem (artikkelnr a) ''artikkelnr'')))
       (\<lambda>articlenr.
     and_then (except_KeyError
                (and_then (tidsskriftsartikkel_of i) (\<lambda>a.
                 and_then (getitem (volum a) ''volum'') (\<lambda>v. Inr (''<strong>('' @ v @ '')</strong>'')))))
       (\<lambda>volum_s.
     and_then (except_KeyError
                (and_then (tidsskriftsartikkel_of i) (\<lambda>a.
                 and_then (getitem (doi a) ''doi'') (\<lambda>d. Inr (''http://dx.doi.org/'' @ d)))))
       (\<lambda>DOI.
       Inr (''<p> '' @ authors @ '' ('' @ year @ ''). '' @ tittel_s @ '' '' @ journal @ '' '' @ volum_s @
            '' '' @ articlenr @ '' '' @ DOI @ ''</p>'')))))))"

text \<open>
  \<^verbatim>\<open>for key, value in (i['kategoridata']).items()\<close>: only the key
  \<^verbatim>\<open>'tidsskriftsartikkel'\<close> appends to \<open>html_codes_all\<close>, every other key
  is passed over.
\<close>

fun kategori_loop :: "resultat \<Rightarrow> string \<Rightarrow> (string \<times> artikkel_dict) list \<Rightarrow> string list
    \<Rightarrow> error + string list" where
  "kategori_loop i authors [] html_codes_all = Inr html_codes_all"
| "kategori_loop i authors ((key, val) # items) html_codes_all =
     (if key = ''tidsskriftsartikkel''
      then and_then (HTML_string_of i authors) (\<lambda>HTML_string.
             kategori_loop i authors items (html_codes_all @ [HTML_string]))
      else kategori_loop i authors items html_codes_all)"

text \<open>One pass of \<^verbatim>\<open>for i in data_sort\<close> (lines 202 to 248).\<close>

definition record_body :: "(char \<Rightarrow> bool) \<Rightarrow> resultat \<Rightarrow> string list \<Rightarrow> error + string list" where
  "record_body isupper i html_codes_all =
     and_then (authors_of isupper i) (\<lambda>authors.
     and_then (getitem (kategoridata i) ''kategoridata'') (\<lambda>kd.
       kategori_loop i authors kd html_codes_all))"

text \<open>
  \<^verbatim>\<open>for i in data_sort\<close>: no \<^verbatim>\<open>try\<close> surrounds the body, so the first
  exception ends the loop.
\<close>

fun record_loop :: "(char \<Rightarrow> bool) \<Rightarrow> resultat list \<Rightarrow> string list \<Rightarrow> error + string list" where
  "record_loop isupper [] html_codes_all = Inr html_codes_all"
| "record_loop isupper (i # rest) html_codes_all =
     and_then (record_body isupper i html_codes_all) (\<lambda>html'. record_loop isupper rest html')"

subsection \<open>Sorting by year (line 199)\<close>

text \<open>The sort key \<^verbatim>\<open>lambda k: k['fellesdata']['ar']\<close>.\<close>

definition year_key :: "resultat \<Rightarrow> error + string" where
  "year_key k = and_then (getitem (fellesdata k) ''fellesdata'') (\<lambda>f. getitem (ar f) ''ar'')"

text \<open>
  \<^verbatim>\<open>sorted\<close> computes the key of every element first, in list order; the first
  key that raises ends the call.
\<close>

fun keys_of :: "resultat list \<Rightarrow> error + string list" where
  "keys_of [] = Inr []"
| "keys_of (k # ks) =
     and_then (year_key k) (\<lambda>y. and_then (keys_of ks) (\<lambda>ys. Inr (y # ys)))"

text \<open>
  \<^verbatim>\<open>sorted(xs, key=..., reverse=True)\<close>: CPython reverses the list, sorts it
  stably in ascending key order and reverses the result, which keeps elements with equal
  keys in their original order.
\<close>

definition sorted_reverse :: "('a \<Rightarrow> 'k::linorder) \<Rightarrow> 'a list \<Rightarrow> 'a list" where
  "sorted_reverse key xs = rev (sort_key key (rev xs))"

text \<open>
  Line 199. The records are sorted in tandem with their keys, which were computed
  beforehand. The keys are strings and are compared as Python compares strings:
  lexicographically by code point.
\<close>

definition data_sort :: "resultat list \<Rightarrow> error + resultat list" where
  "data_sort rs =
     and_then (keys_of rs) (\<lambda>keys. Inr (map snd (sorted_reverse fst (zip keys rs))))"

subsection \<open>The registry (requests and responses)\<close>

text \<open>
  The values the program puts into a query string or returns as a person identifier:
  \<^verbatim>\<open>None\<close>, an integer or a string.
\<close>

datatype pyval = PyNone | PyInt int | PyStr string

text \<open>
  A request is kept as it is before \<^verbatim>\<open>urlencode\<close> (a function of Python's
  library) turns the query dictionary into text: the base of the URL and the items of
  the dictionary, in the order of the keyword arguments of \<^verbatim>\<open>dict(...)\<close>.
\<close>

record request =
  base :: string
  query :: "(string \<times> pyval) list"

text \<open>
  A response of \<^verbatim>\<open>requests.get\<close>: its HTTP status and what its method
  \<^verbatim>\<open>json()\<close> returns, the decoded body or an exception.
\<close>

record 'a response =
  status_code :: nat
  json :: "error + 'a"

text \<open>The decoded body of the publication listing, a dictionary.\<close>

record pubs_dict =
  forskningsresultat :: "resultat list option"

text \<open>
  The registry, as far as the program sees it: what \<^verbatim>\<open>requests.get\<close> does on a
  request to the person search and to the publication listing, an exception (no
  connection) or a response. A candidate of the person search is a dictionary.
\<close>

record registry =
  get_persons :: "request \<Rightarrow> error + (string \<times> pyval) list list response"
  get_resultater :: "request \<Rightarrow> error + pubs_dict response"

subsection \<open>\<^verbatim>\<open>cristin_person_id\<close> (lines 19 to 41)\<close>

text \<open>
  The argument is a string or an integer, as in the docstring. \<^verbatim>\<open>int(author)\<close>
  returns an integer as it is; on a string it is Python's parser \<open>py_int\<close>, a
  parameter, which returns \<open>None\<close> where \<^verbatim>\<open>int\<close> raises
  \<^verbatim>\<open>ValueError\<close>.
\<close>

datatype author_ref = AuthorStr string | AuthorInt int

definition int_of :: "(string \<Rightarrow> int option) \<Rightarrow> author_ref \<Rightarrow> error + int" where
  "int_of py_int author =
     (case author of
        AuthorInt n \<Rightarrow> Inr n
      | AuthorStr s \<Rightarrow> (case py_int s of None \<Rightarrow> Inl ValueError | Some n \<Rightarrow> Inr n))"

definition author_val :: "author_ref \<Rightarrow> pyval" where
  "author_val author = (case author of AuthorInt n \<Rightarrow> PyInt n | AuthorStr s \<Rightarrow> PyStr s)"

definition persons_request :: "author_ref \<Rightarrow> request" where
  "persons_request author =
     \<lparr>base = ''https://api.cristin.no/v1/persons?'', query = [(''name'', author_val author)]\<rparr>"

text \<open>
  Every function that talks to the registry takes the list of the requests sent so far
  and returns it with its own requests appended.
\<close>

definition cristin_person_id ::
  "(string \<Rightarrow> int option) \<Rightarrow> registry \<Rightarrow> author_ref \<Rightarrow> request list
    \<Rightarrow> (error + pyval) \<times> request list" where
  "cristin_person_id py_int net author sent =
     (case int_of py_int author of
        Inr n \<Rightarrow> (Inr (PyInt n), sent)
      | Inl ValueError \<Rightarrow>
          (let url = persons_request author; sent' = sent @ [url] in
           case get_persons net url of
             Inl e \<Rightarrow> (Inl e, sent')
           | Inr r \<Rightarrow>
               (case json r of
                  Inl e \<Rightarrow> (Inl e, sent')
                | Inr candidates \<Rightarrow>
                    (case candidates of
                       c # cs \<Rightarrow>
                         (getitem (map_of c ''cristin_person_id'') ''cristin_person_id'', sent')
                     | [] \<Rightarrow> (Inr PyNone, sent'))))
      | Inl e \<Rightarrow> (Inl e, sent))"

subsection \<open>\<^verbatim>\<open>pubs_by\<close> (lines 44 to 171)\<close>

definition hent_request :: "pyval \<Rightarrow> pyval \<Rightarrow> pyval \<Rightarrow> string \<Rightarrow> request" where
  "hent_request cpid fra til hovedkategori =
     \<lparr>base = ''http://www.cristin.no/ws/hentVarbeiderPerson?'',
      query = [(''lopenr'', cpid), (''fra'', fra), (''til'', til),
               (''hovedkategori'', PyStr hovedkategori), (''format'', PyStr ''json'')]\<rparr>"

definition pubs_by ::
  "(string \<Rightarrow> int option) \<Rightarrow> registry \<Rightarrow> author_ref \<Rightarrow> pyval \<Rightarrow> pyval \<Rightarrow> string \<Rightarrow> request list
    \<Rightarrow> (error + pubs_dict) \<times> request list" where
  "pubs_by py_int net author fra til hovedkategori sent =
     (case cristin_person_id py_int net author sent of
        (Inl e, sent1) \<Rightarrow> (Inl e, sent1)
      | (Inr cpid, sent1) \<Rightarrow>
          (let url = hent_request cpid fra til hovedkategori; sent2 = sent1 @ [url] in
           case get_resultater net url of
             Inl e \<Rightarrow> (Inl e, sent2)
           | Inr r \<Rightarrow> (json r, sent2)))"

subsection \<open>The script (lines 182 to 284)\<close>

definition name_of_user :: string where
  "name_of_user = ''Jon Olav Vik''"

text \<open>Lines 195 to 248: from the fetched document to \<open>html_codes_all\<close>.\<close>

definition html_codes_all_of :: "(char \<Rightarrow> bool) \<Rightarrow> pubs_dict \<Rightarrow> error + string list" where
  "html_codes_all_of isupper data =
     and_then (getitem (forskningsresultat data) ''forskningsresultat'') (\<lambda>rs.
     and_then (data_sort rs) (\<lambda>sorted_rs.
       record_loop isupper sorted_rs []))"

definition nl :: string where
  "nl = [CHR 0x0A]"

definition html_str_start :: string where
  "html_str_start =
     nl @ ''    <!DOCTYPE html>'' @ nl @ ''    <HTML>'' @ nl @ ''        <head>'' @ nl @
     ''            <meta charset='' @ [CHR 0x22] @ ''utf-8'' @ [CHR 0x22] @ ''>'' @ nl @
     ''        </head>'' @ nl @ nl @ ''        <body>'' @ nl @
     ''            <h1>References</h1>'' @ nl @ ''    ''"

definition html_str_end :: string where
  "html_str_end = nl @ ''        </body>'' @ nl @ ''    </HTML>'' @ nl @ ''    ''"

text \<open>What lines 281 to 284 write into the file.\<close>

definition file_text :: "string list \<Rightarrow> string" where
  "file_text html_codes_all =
     html_str_start @ concat (map (\<lambda>i. [CHR 0x09, CHR 0x09] @ i @ nl) html_codes_all) @ html_str_end"

text \<open>
  The script: the name and the text of the file it writes, or the exception that ends
  it before the file is opened; the second component is the list of requests sent.
\<close>

definition main :: "(char \<Rightarrow> bool) \<Rightarrow> (string \<Rightarrow> int option) \<Rightarrow> registry
    \<Rightarrow> (error + string \<times> string) \<times> request list" where
  "main isupper py_int net =
     (case pubs_by py_int net (AuthorStr name_of_user) (PyStr '''') (PyStr '''')
             ''TIDSSKRIFTPUBL'' [] of
        (Inl e, sent) \<Rightarrow> (Inl e, sent)
      | (Inr data, sent) \<Rightarrow>
          (and_then (html_codes_all_of isupper data) (\<lambda>html_codes_all.
             Inr (name_of_user @ ''.html'', file_text html_codes_all)), sent))"

subsection \<open>The words of the specification\<close>

text \<open>\<^verbatim>\<open>sub in s\<close> on strings: \<open>s\<close> contains \<open>sub\<close> as a run of characters.\<close>

fun starts_with :: "string \<Rightarrow> string \<Rightarrow> bool" where
  "starts_with [] s = True"
| "starts_with (c # cs) [] = False"
| "starts_with (c # cs) (d # ds) = (c = d \<and> starts_with cs ds)"

fun contains :: "string \<Rightarrow> string \<Rightarrow> bool" where
  "contains sub [] = (sub = [])"
| "contains sub (c # cs) = (starts_with sub (c # cs) \<or> contains sub cs)"

text \<open>
  The year as a number, \<^verbatim>\<open>int(year)\<close>, for a year written in the digits
  \<open>0\<close> to \<open>9\<close>.
\<close>

definition is_digit :: "char \<Rightarrow> bool" where
  "is_digit c = (CHR ''0'' \<le> c \<and> c \<le> CHR ''9'')"

definition digit_of :: "char \<Rightarrow> nat" where
  "digit_of c = of_char c - 48"

definition nat_of_digits :: "string \<Rightarrow> nat" where
  "nat_of_digits s = foldl (\<lambda>n c. 10 * n + digit_of c) 0 s"

text \<open>
  Sorting by the year as a number, newest first, stable: what
  \<^verbatim>\<open>sorted(..., key=lambda k: int(k['fellesdata']['ar']), reverse=True)\<close> would
  return.
\<close>

definition numeric_data_sort :: "resultat list \<Rightarrow> error + resultat list" where
  "numeric_data_sort rs =
     and_then (keys_of rs) (\<lambda>keys.
       Inr (map snd (sorted_reverse (\<lambda>p. nat_of_digits (fst p)) (zip keys rs))))"

subsection \<open>Concrete inputs\<close>

text \<open>
  \<^verbatim>\<open>str.isupper\<close> on the characters of ASCII, for the examples: the letters
  \<open>A\<close> to \<open>Z\<close>.
\<close>

definition isupper_ascii :: "char \<Rightarrow> bool" where
  "isupper_ascii c = (CHR ''A'' \<le> c \<and> c \<le> CHR ''Z'')"

text \<open>The journal article of section 8 of the specification, by one author.\<close>

definition article_T :: resultat where
  "article_T =
     \<lparr>fellesdata = Some \<lparr>tittel = Some ''T'', ar = Some ''2014'',
                          person = Some (PersonDict (entry ''Vik'' ''Jon Olav''))\<rparr>,
      kategoridata = Some [(''tidsskriftsartikkel'',
         \<lparr>tidsskrift = Some \<lparr>navn = Some ''J''\<rparr>, artikkelnr = Some ''e9379'',
          volum = Some ''53'', doi = Some ''10.1/x''\<rparr>)]\<rparr>"

text \<open>The same article without the key \<^verbatim>\<open>volum\<close>.\<close>

definition article_no_volum :: resultat where
  "article_no_volum =
     \<lparr>fellesdata = Some \<lparr>tittel = Some ''T'', ar = Some ''2014'',
                          person = Some (PersonDict (entry ''Vik'' ''Jon Olav''))\<rparr>,
      kategoridata = Some [(''tidsskriftsartikkel'',
         \<lparr>tidsskrift = Some \<lparr>navn = Some ''J''\<rparr>, artikkelnr = Some ''e9379'',
          volum = None, doi = Some ''10.1/x''\<rparr>)]\<rparr>"

text \<open>A record that has a year and nothing else.\<close>

definition year_only :: "string \<Rightarrow> resultat" where
  "year_only y =
     \<lparr>fellesdata = Some \<lparr>tittel = None, ar = Some y, person = None\<rparr>, kategoridata = None\<rparr>"

text \<open>A journal article of 2010 by two authors, after the docstring of \<^verbatim>\<open>pubs_by\<close>.\<close>

definition article_2010 :: resultat where
  "article_2010 =
     \<lparr>fellesdata = Some \<lparr>tittel = Some ''Allele Interaction'', ar = Some ''2010'',
                          person = Some (PersonList [entry ''Gjuvsland'' ''Arne Bjorke'',
                                                     entry ''Plahte'' ''Erik''])\<rparr>,
      kategoridata = Some [(''tidsskriftsartikkel'',
         \<lparr>tidsskrift = Some \<lparr>navn = Some ''PLoS ONE''\<rparr>, artikkelnr = Some ''e9379'',
          volum = Some ''5'', doi = Some ''10.1371/journal.pone.0009379''\<rparr>)]\<rparr>"

text \<open>The article of 2014 without the key \<^verbatim>\<open>tittel\<close>, and without the key \<^verbatim>\<open>ar\<close>.\<close>

definition article_no_tittel :: resultat where
  "article_no_tittel =
     \<lparr>fellesdata = Some \<lparr>tittel = None, ar = Some ''2014'',
                          person = Some (PersonDict (entry ''Vik'' ''Jon Olav''))\<rparr>,
      kategoridata = Some [(''tidsskriftsartikkel'',
         \<lparr>tidsskrift = Some \<lparr>navn = Some ''J''\<rparr>, artikkelnr = Some ''e9379'',
          volum = Some ''53'', doi = Some ''10.1/x''\<rparr>)]\<rparr>"

definition article_no_ar :: resultat where
  "article_no_ar =
     \<lparr>fellesdata = Some \<lparr>tittel = Some ''T'', ar = None,
                          person = Some (PersonDict (entry ''Vik'' ''Jon Olav''))\<rparr>,
      kategoridata = Some [(''tidsskriftsartikkel'',
         \<lparr>tidsskrift = Some \<lparr>navn = Some ''J''\<rparr>, artikkelnr = Some ''e9379'',
          volum = Some ''53'', doi = Some ''10.1/x''\<rparr>)]\<rparr>"

text \<open>
  An instance of \<open>py_int\<close> for the examples. It agrees with \<^verbatim>\<open>int\<close> on the
  strings used there: a string of one or more of the digits \<open>0\<close> to \<open>9\<close> is that
  number, and a name made of letters and spaces raises \<^verbatim>\<open>ValueError\<close>. Strings
  with a sign, an underscore or white space around digits, which \<^verbatim>\<open>int\<close> may
  accept, are not among the examples.
\<close>

definition py_int_digits :: "string \<Rightarrow> int option" where
  "py_int_digits s =
     (if s \<noteq> [] \<and> list_all is_digit s then Some (int (nat_of_digits s)) else None)"

text \<open>
  A registry that knows one person under every name and lists two articles, one that
  finds no person and answers the publication request with status 404 and a body that
  decodes, and one that cannot be reached.
\<close>

definition registry_ok :: registry where
  "registry_ok =
     \<lparr>get_persons = (\<lambda>url. Inr \<lparr>status_code = 200,
                                  json = Inr [[(''cristin_person_id'', PyInt 22311)]]\<rparr>),
      get_resultater = (\<lambda>url. Inr \<lparr>status_code = 200,
          json = Inr \<lparr>forskningsresultat = Some [article_2010, article_T]\<rparr>\<rparr>)\<rparr>"

definition registry_unknown :: registry where
  "registry_unknown =
     \<lparr>get_persons = (\<lambda>url. Inr \<lparr>status_code = 200, json = Inr []\<rparr>),
      get_resultater = (\<lambda>url. Inr \<lparr>status_code = 404,
          json = Inr \<lparr>forskningsresultat = Some []\<rparr>\<rparr>)\<rparr>"

definition registry_down :: registry where
  "registry_down =
     \<lparr>get_persons = (\<lambda>url. Inl RequestException),
      get_resultater = (\<lambda>url. Inl RequestException)\<rparr>"

text \<open>The first registry with a publication listing that has an article without title.\<close>

definition registry_no_tittel :: registry where
  "registry_no_tittel =
     \<lparr>get_persons = (\<lambda>url. Inr \<lparr>status_code = 200,
                                  json = Inr [[(''cristin_person_id'', PyInt 22311)]]\<rparr>),
      get_resultater = (\<lambda>url. Inr \<lparr>status_code = 200,
          json = Inr \<lparr>forskningsresultat = Some [article_no_tittel, article_2010]\<rparr>\<rparr>)\<rparr>"

text \<open>The registry \<open>net\<close> with the status of every response replaced by \<open>g\<close> of it.\<close>

definition with_status :: "(nat \<Rightarrow> nat) \<Rightarrow> registry \<Rightarrow> registry" where
  "with_status g net =
     \<lparr>get_persons = (\<lambda>url. case get_persons net url of
                         Inl e \<Rightarrow> Inl e
                       | Inr r \<Rightarrow> Inr (r\<lparr>status_code := g (status_code r)\<rparr>)),
      get_resultater = (\<lambda>url. case get_resultater net url of
                         Inl e \<Rightarrow> Inl e
                       | Inr r \<Rightarrow> Inr (r\<lparr>status_code := g (status_code r)\<rparr>))\<rparr>"

section \<open>Properties\<close>

subsection \<open>Evaluation rules\<close>

lemma and_then_Inr [simp]: "and_then (Inr v) f = f v"
  by (simp add: and_then_def)

lemma and_then_Inl [simp]: "and_then (Inl e) f = Inl e"
  by (simp add: and_then_def)

lemma getitem_Some [simp]: "getitem (Some v) key = Inr v"
  by (simp add: getitem_def)

lemma getitem_None [simp]: "getitem None key = Inl (KeyError key)"
  by (simp add: getitem_def)

lemma except_KeyError_simps [simp]:
  "except_KeyError (Inr v) = Inr v"
  "except_KeyError (Inl (KeyError k)) = Inr []"
  by (simp_all add: except_KeyError_def)

subsection \<open>The author list\<close>

lemma person_loop_entries:
  "person_loop isupper (map (\<lambda>(s, g). entry s g) names) acc =
     Inr (acc @ concat (map (\<lambda>(s, g). render_author isupper s g @ '', '') names))"
  by (induction names arbitrary: acc)
     (auto simp: entry_def Uppercase_firstname_def render_author_def)

lemma drop_last2_join:
  "drop_last2 (concat (map (\<lambda>x. x @ '', '') xs)) = join_with '', '' xs"
proof (induction xs)
  case Nil
  then show ?case by (simp add: drop_last2_def)
next
  case (Cons x xs)
  show ?case
  proof (cases xs)
    case Nil
    then show ?thesis by (simp add: drop_last2_def)
  next
    case (Cons y ys)
    have "2 \<le> length (concat (map (\<lambda>x. x @ '', '') (y # ys)))"
      by simp
    then show ?thesis
      using Cons.IH Cons by (simp add: drop_last2_def)
  qed
qed

lemma drop_last2_concat_map:
  "drop_last2 (concat (map (\<lambda>x. f x @ '', '') xs)) = join_with '', '' (map f xs)"
  using drop_last2_join [of "map f xs"] by (simp add: comp_def)

text \<open>
  Claim C6. The author string of a record is the rendering of the specification: every
  author as surname, a space and the uppercase letters of the given name in their order,
  the authors joined by \<open>', '\<close> with no separator at the end. This holds for the
  field \<^verbatim>\<open>person\<close> alone and for the author string \<open>authors_of\<close> of a
  record, whether the field is a list of author dictionaries or a single one. A single
  author dictionary and the list of that one dictionary give the same string (and the
  same \<^verbatim>\<open>KeyError\<close> when a name is missing).
\<close>

theorem author_list_rendering:
  "authors_of_person isupper (PersonList (map (\<lambda>(s, g). entry s g) names))
     = Inr (spec_author_list isupper names)
   \<and> authors_of_person isupper (PersonDict (entry s g)) = Inr (spec_author_list isupper [(s, g)])
   \<and> authors_of_person isupper (PersonDict k) = authors_of_person isupper (PersonList [k])
   \<and> authors_of isupper
         (i\<lparr>fellesdata := Some (f\<lparr>person := Some (PersonList (map (\<lambda>(s, g). entry s g) names))\<rparr>)\<rparr>)
     = Inr (spec_author_list isupper names)
   \<and> authors_of isupper (i\<lparr>fellesdata := Some (f\<lparr>person := Some (PersonDict (entry s g))\<rparr>)\<rparr>)
     = Inr (spec_author_list isupper [(s, g)])
   \<and> authors_of isupper (i\<lparr>fellesdata := Some (f\<lparr>person := Some (PersonDict k)\<rparr>)\<rparr>)
     = authors_of isupper (i\<lparr>fellesdata := Some (f\<lparr>person := Some (PersonList [k])\<rparr>)\<rparr>)"
proof -
  have "person_loop isupper (map (\<lambda>(s, g). entry s g) names) []
        = Inr (concat (map (\<lambda>x. (case x of (s, g) \<Rightarrow> render_author isupper s g) @ '', '') names))"
    using person_loop_entries [of isupper names "[]"]
    unfolding case_prod_beta by simp
  then have list: "authors_of_person isupper (PersonList (map (\<lambda>(s, g). entry s g) names))
     = Inr (spec_author_list isupper names)"
    by (simp add: authors_of_person_def spec_author_list_def drop_last2_concat_map)
  have dict: "authors_of_person isupper (PersonDict (entry s g)) = Inr (spec_author_list isupper [(s, g)])"
    by (simp add: authors_of_person_def entry_def spec_author_list_def render_author_def
        Uppercase_firstname_def)
  have single: "authors_of_person isupper (PersonDict k) = authors_of_person isupper (PersonList [k])"
    by (cases "fornavn k"; cases "etternavn k")
       (simp_all add: authors_of_person_def drop_last2_def)
  from list dict single show ?thesis
    by (simp add: authors_of_def)
qed

text \<open>
  The author strings of the article of 2010, whose field is a list of two authors, and
  of the article of the specification, whose field is one author dictionary.
\<close>

theorem author_list_rendering_witness:
  "authors_of isupper_ascii article_2010 = Inr ''Gjuvsland AB, Plahte E''
   \<and> authors_of isupper_ascii article_T = Inr ''Vik JO''"
proof -
  have a: "article_2010 =
      article_2010\<lparr>fellesdata := Some (\<lparr>tittel = Some ''Allele Interaction'', ar = Some ''2010'',
          person = None\<rparr>\<lparr>person := Some (PersonList (map (\<lambda>(s, g). entry s g)
            [(''Gjuvsland'', ''Arne Bjorke''), (''Plahte'', ''Erik'')]))\<rparr>)\<rparr>"
    by (simp add: article_2010_def)
  have b: "article_T =
      article_T\<lparr>fellesdata := Some (\<lparr>tittel = Some ''T'', ar = Some ''2014'',
          person = None\<rparr>\<lparr>person := Some (PersonDict (entry ''Vik'' ''Jon Olav''))\<rparr>)\<rparr>"
    by (simp add: article_T_def)
  have l: "spec_author_list isupper_ascii [(''Gjuvsland'', ''Arne Bjorke''), (''Plahte'', ''Erik'')]
           = ''Gjuvsland AB, Plahte E''"
    by (simp add: spec_author_list_def render_author_def isupper_ascii_def)
  have d: "spec_author_list isupper_ascii [(''Vik'', ''Jon Olav'')] = ''Vik JO''"
    by (simp add: spec_author_list_def render_author_def isupper_ascii_def)
  from author_list_rendering [where isupper = isupper_ascii and i = article_2010
      and f = "\<lparr>tittel = Some ''Allele Interaction'', ar = Some ''2010'', person = None\<rparr>"
      and names = "[(''Gjuvsland'', ''Arne Bjorke''), (''Plahte'', ''Erik'')]"]
  have 1: "authors_of isupper_ascii article_2010 = Inr ''Gjuvsland AB, Plahte E''"
    by (subst a) (simp only: l)
  from author_list_rendering [where isupper = isupper_ascii and i = article_T
      and f = "\<lparr>tittel = Some ''T'', ar = Some ''2014'', person = None\<rparr>"
      and s = "''Vik''" and g = "''Jon Olav''"]
  have 2: "authors_of isupper_ascii article_T = Inr ''Vik JO''"
    by (subst b) (simp only: d)
  from 1 2 show ?thesis by simp
qed

text \<open>An example: two authors, the second with two given names.\<close>

lemma author_list_example:
  "authors_of_person isupper_ascii (PersonList [entry ''Nordbo'' ''Oyvind'', entry ''Vik'' ''Jon Olav''])
     = Inr ''Nordbo O, Vik JO''"
  by (simp add: authors_of_person_def entry_def Uppercase_firstname_def isupper_ascii_def
      drop_last2_def)

subsection \<open>One citation\<close>

lemma kategori_loop_absent:
  "''tidsskriftsartikkel'' \<notin> fst ` set kd \<Longrightarrow> kategori_loop i authors kd html = Inr html"
  by (induction kd arbitrary: html) auto

lemma kategori_loop_present:
  "distinct (map fst kd) \<Longrightarrow> ''tidsskriftsartikkel'' \<in> fst ` set kd \<Longrightarrow>
   HTML_string_of i authors = Inr s \<Longrightarrow> kategori_loop i authors kd html = Inr (html @ [s])"
proof (induction kd arbitrary: html)
  case Nil
  then show ?case by simp
next
  case (Cons kv kd)
  obtain key val where kv: "kv = (key, val)" by (cases kv)
  show ?case
  proof (cases "key = ''tidsskriftsartikkel''")
    case True
    with Cons.prems kv have "''tidsskriftsartikkel'' \<notin> fst ` set kd" by auto
    then show ?thesis
      using True kv Cons.prems(3) by (simp add: kategori_loop_absent)
  next
    case False
    with Cons.prems kv have "distinct (map fst kd)" "''tidsskriftsartikkel'' \<in> fst ` set kd"
      by auto
    then show ?thesis
      using False kv Cons.IH Cons.prems(3) by simp
  qed
qed

lemma kategori_loop_raises:
  "''tidsskriftsartikkel'' \<in> fst ` set kd \<Longrightarrow> HTML_string_of i authors = Inl e \<Longrightarrow>
   kategori_loop i authors kd html = Inl e"
  by (induction kd arbitrary: html) force+

lemma HTML_string_of_article:
  assumes "fellesdata i = Some f" "tittel f = Some t" "ar f = Some y"
    and "kategoridata i = Some kd" "map_of kd ''tidsskriftsartikkel'' = Some a"
    and "tidsskrift a = Some j" "navn j = Some n"
  shows "HTML_string_of i authors =
    Inr (''<p> '' @ authors @ '' ('' @ y @ ''). '' @ t @ '' '' @ ''<em>'' @ n @ ''</em>'' @ '' '' @
         (case volum a of None \<Rightarrow> '''' | Some v \<Rightarrow> ''<strong>('' @ v @ '')</strong>'') @ '' '' @
         (case artikkelnr a of None \<Rightarrow> '''' | Some x \<Rightarrow> x) @ '' '' @
         (case doi a of None \<Rightarrow> '''' | Some d \<Rightarrow> ''http://dx.doi.org/'' @ d) @ ''</p>'')"
  using assms
  by (cases "volum a"; cases "artikkelnr a"; cases "doi a")
     (simp_all add: HTML_string_of_def tidsskriftsartikkel_of_def)

lemma contains_append: "contains sub (xs @ sub @ ys)"
proof (induction xs)
  case Nil
  have sw: "starts_with sub (sub @ ys)" by (induction sub) auto
  show ?case
  proof (cases "sub @ ys")
    case Nil
    then show ?thesis by simp
  next
    case (Cons c cs)
    with sw show ?thesis by simp
  qed
next
  case (Cons x xs)
  then show ?case by simp
qed

text \<open>
  Claim C4. A journal article whose title, year, journal name, volume and DOI are present
  is rendered, in this order, as the author list, the year in parentheses, the title, the
  journal name inside \<open><em>\<close>, the volume in parentheses inside \<open><strong>\<close>, the
  article number when there is one, and the DOI behind \<open>http://dx.doi.org/\<close>; the loop
  body appends exactly this one paragraph to \<open>html_codes_all\<close>.
\<close>

theorem journal_article_citation:
  assumes "fellesdata i = Some f" "person f = Some p" "authors_of_person isupper p = Inr authors"
    and "tittel f = Some t" "ar f = Some y"
    and "kategoridata i = Some kd" "distinct (map fst kd)"
    and "map_of kd ''tidsskriftsartikkel'' = Some a"
    and "tidsskrift a = Some j" "navn j = Some n" "volum a = Some v" "doi a = Some d"
  shows "record_body isupper i html_codes_all =
    Inr (html_codes_all @
      [''<p> '' @ authors @ '' ('' @ y @ ''). '' @ t @ '' '' @ ''<em>'' @ n @ ''</em>'' @ '' '' @
       ''<strong>('' @ v @ '')</strong>'' @ '' '' @
       (case artikkelnr a of None \<Rightarrow> '''' | Some x \<Rightarrow> x) @ '' '' @
       ''http://dx.doi.org/'' @ d @ ''</p>''])"
proof -
  from assms(8) have "(''tidsskriftsartikkel'', a) \<in> set kd"
    by (rule map_of_SomeD)
  then have key: "''tidsskriftsartikkel'' \<in> fst ` set kd"
    by force
  have "authors_of isupper i = Inr authors"
    using assms(1-3) by (simp add: authors_of_def)
  moreover note HTML_string_of_article [OF assms(1) assms(4) assms(5) assms(6) assms(8) assms(9) assms(10), of authors]
  ultimately show ?thesis
    using assms(6,7,11,12) key
    by (simp add: record_body_def kategori_loop_present)
qed

text \<open>The article of section 8 of the specification, with an article number.\<close>

theorem journal_article_citation_witness:
  "record_body isupper_ascii article_T [] =
     Inr [''<p> Vik JO (2014). T <em>J</em> <strong>(53)</strong> e9379 http://dx.doi.org/10.1/x</p>'']"
  using journal_article_citation [of article_T
      "\<lparr>tittel = Some ''T'', ar = Some ''2014'', person = Some (PersonDict (entry ''Vik'' ''Jon Olav''))\<rparr>"
      "PersonDict (entry ''Vik'' ''Jon Olav'')" isupper_ascii "''Vik JO''" "''T''" "''2014''"
      "[(''tidsskriftsartikkel'',
         \<lparr>tidsskrift = Some \<lparr>navn = Some ''J''\<rparr>, artikkelnr = Some ''e9379'',
          volum = Some ''53'', doi = Some ''10.1/x''\<rparr>)]"
      "\<lparr>tidsskrift = Some \<lparr>navn = Some ''J''\<rparr>, artikkelnr = Some ''e9379'',
          volum = Some ''53'', doi = Some ''10.1/x''\<rparr>"
      "\<lparr>navn = Some ''J''\<rparr>" "''J''" "''53''" "''10.1/x''" "[]"]
  by (simp add: article_T_def authors_of_person_def entry_def Uppercase_firstname_def
      isupper_ascii_def)

text \<open>
  Claim C5, as the program has it. An absent volume, article number or DOI contributes
  the empty string, so none of its markup appears; the spaces between the fields are
  written all the same. A citation without volume therefore has two spaces after the
  journal markup, and a citation that lacks the volume or the article number contains a
  double space.
\<close>

theorem absent_optional_field:
  assumes "fellesdata i = Some f" "tittel f = Some t" "ar f = Some y"
    and "kategoridata i = Some kd" "map_of kd ''tidsskriftsartikkel'' = Some a"
    and "tidsskrift a = Some j" "navn j = Some n"
  shows "HTML_string_of i authors =
    Inr ((''<p> '' @ authors @ '' ('' @ y @ ''). '' @ t @ '' '' @ ''<em>'' @ n @ ''</em>'') @ '' '' @
         (case volum a of None \<Rightarrow> '''' | Some v \<Rightarrow> ''<strong>('' @ v @ '')</strong>'') @ '' '' @
         (case artikkelnr a of None \<Rightarrow> '''' | Some x \<Rightarrow> x) @ '' '' @
         (case doi a of None \<Rightarrow> '''' | Some d \<Rightarrow> ''http://dx.doi.org/'' @ d) @ ''</p>'')
    \<and> (volum a = None \<longrightarrow>
         (\<exists>rest. HTML_string_of i authors =
            Inr ((''<p> '' @ authors @ '' ('' @ y @ ''). '' @ t @ '' '' @ ''<em>'' @ n @ ''</em>'') @ ''  '' @ rest)))
    \<and> (volum a = None \<or> artikkelnr a = None \<longrightarrow>
         (\<exists>s. HTML_string_of i authors = Inr s \<and> contains ''  '' s))"
proof -
  let ?head = "''<p> '' @ authors @ '' ('' @ y @ ''). '' @ t @ '' '' @ ''<em>'' @ n @ ''</em>''"
  let ?V = "case volum a of None \<Rightarrow> '''' | Some v \<Rightarrow> ''<strong>('' @ v @ '')</strong>''"
  let ?A = "case artikkelnr a of None \<Rightarrow> '''' | Some x \<Rightarrow> x"
  let ?D = "case doi a of None \<Rightarrow> '''' | Some d \<Rightarrow> ''http://dx.doi.org/'' @ d"
  have eq: "HTML_string_of i authors = Inr (?head @ '' '' @ ?V @ '' '' @ ?A @ '' '' @ ?D @ ''</p>'')"
    using HTML_string_of_article [OF assms, of authors] by simp
  have v: "\<exists>rest. HTML_string_of i authors = Inr (?head @ ''  '' @ rest)" if "volum a = None"
    using eq that by simp
  have c1: "contains ''  '' (?head @ '' '' @ ?V @ '' '' @ ?A @ '' '' @ ?D @ ''</p>'')" if "volum a = None"
    using that contains_append [of "''  ''" ?head "?A @ '' '' @ ?D @ ''</p>''"] by simp
  have c2: "contains ''  '' (?head @ '' '' @ ?V @ '' '' @ ?A @ '' '' @ ?D @ ''</p>'')" if "artikkelnr a = None"
    using that contains_append [of "''  ''" "?head @ '' '' @ ?V" "?D @ ''</p>''"] by simp
  from eq v c1 c2 show ?thesis by blast
qed

theorem absent_optional_field_witness:
  "HTML_string_of article_no_volum ''Vik JO'' =
     Inr ''<p> Vik JO (2014). T <em>J</em>  e9379 http://dx.doi.org/10.1/x</p>''
   \<and> contains ''  '' ''<p> Vik JO (2014). T <em>J</em>  e9379 http://dx.doi.org/10.1/x</p>''"
  using absent_optional_field [of article_no_volum
      "\<lparr>tittel = Some ''T'', ar = Some ''2014'', person = Some (PersonDict (entry ''Vik'' ''Jon Olav''))\<rparr>"
      "''T''" "''2014''"
      "[(''tidsskriftsartikkel'',
         \<lparr>tidsskrift = Some \<lparr>navn = Some ''J''\<rparr>, artikkelnr = Some ''e9379'',
          volum = None, doi = Some ''10.1/x''\<rparr>)]"
      "\<lparr>tidsskrift = Some \<lparr>navn = Some ''J''\<rparr>, artikkelnr = Some ''e9379'',
          volum = None, doi = Some ''10.1/x''\<rparr>"
      "\<lparr>navn = Some ''J''\<rparr>" "''J''" "''Vik JO''"]
  by (simp add: article_no_volum_def)

text \<open>
  Claim C5 as it is written fails on the article without volume: its citation has a
  double space between the journal and the article number.
\<close>

theorem missing_volum_counterexample:
  "record_body isupper_ascii article_no_volum [] =
     Inr [''<p> Vik JO (2014). T <em>J</em>  e9379 http://dx.doi.org/10.1/x</p>'']
   \<and> contains ''  '' ''<p> Vik JO (2014). T <em>J</em>  e9379 http://dx.doi.org/10.1/x</p>''"
  by (simp add: record_body_def article_no_volum_def authors_of_def authors_of_person_def entry_def
      Uppercase_firstname_def isupper_ascii_def HTML_string_of_def tidsskriftsartikkel_of_def)

subsection \<open>The function \<^verbatim>\<open>citation\<close>\<close>

text \<open>
  Claim C10. The function \<^verbatim>\<open>citation\<close> returns \<^verbatim>\<open>None\<close> for every
  record: it formats nothing. The citations are made by the loop of the script, as for
  the article of the specification, for which the loop body gives a paragraph and
  \<^verbatim>\<open>citation\<close> gives \<^verbatim>\<open>None\<close>.
\<close>

theorem citation_returns_None:
  "citation pub = None
   \<and> citation article_T = None
   \<and> record_body isupper_ascii article_T [] =
       Inr [''<p> Vik JO (2014). T <em>J</em> <strong>(53)</strong> e9379 http://dx.doi.org/10.1/x</p>'']"
  by (simp add: citation_def record_body_def article_T_def authors_of_def authors_of_person_def
      entry_def Uppercase_firstname_def isupper_ascii_def HTML_string_of_def
      tidsskriftsartikkel_of_def)

subsection \<open>Years written in digits\<close>

lemma is_digit_bounds:
  assumes "is_digit c"
  shows "48 \<le> (of_char c :: nat)" and "(of_char c :: nat) \<le> 57"
  using assms by (simp_all add: is_digit_def less_eq_char_def)

lemma digit_of_le_9: "is_digit c \<Longrightarrow> digit_of c \<le> 9"
  using is_digit_bounds [of c] unfolding digit_of_def by linarith

lemma digit_of_less_iff: "is_digit c \<Longrightarrow> is_digit d \<Longrightarrow> c < d \<longleftrightarrow> digit_of c < digit_of d"
  using is_digit_bounds [of c] is_digit_bounds [of d]
  unfolding digit_of_def less_char_def by linarith

lemma digit_of_eq_iff: "is_digit c \<Longrightarrow> is_digit d \<Longrightarrow> c = d \<longleftrightarrow> digit_of c = digit_of d"
proof -
  assume "is_digit c" "is_digit d"
  then have "digit_of c = digit_of d \<longleftrightarrow> (of_char c :: nat) = of_char d"
    using is_digit_bounds [of c] is_digit_bounds [of d] unfolding digit_of_def by linarith
  then show ?thesis by simp
qed

lemma foldl_digits:
  "foldl (\<lambda>n c. 10 * n + digit_of c) a s = a * 10 ^ length s + nat_of_digits s"
proof (induction s arbitrary: a)
  case Nil
  then show ?case by (simp add: nat_of_digits_def)
next
  case (Cons c s)
  have "foldl (\<lambda>n c. 10 * n + digit_of c) a (c # s)
        = (10 * a + digit_of c) * 10 ^ length s + nat_of_digits s"
    using Cons.IH [of "10 * a + digit_of c"] by simp
  moreover have "nat_of_digits (c # s) = digit_of c * 10 ^ length s + nat_of_digits s"
    using Cons.IH [of "digit_of c"] by (simp add: nat_of_digits_def)
  ultimately show ?case by (simp add: algebra_simps)
qed

lemma nat_of_digits_Cons:
  "nat_of_digits (c # s) = digit_of c * 10 ^ length s + nat_of_digits s"
  using foldl_digits [of "digit_of c" s] by (simp add: nat_of_digits_def)

lemma nat_of_digits_less: "list_all is_digit s \<Longrightarrow> nat_of_digits s < 10 ^ length s"
proof (induction s)
  case Nil
  then show ?case by (simp add: nat_of_digits_def)
next
  case (Cons c s)
  then have "digit_of c \<le> 9" and IH: "nat_of_digits s < 10 ^ length s"
    by (simp_all add: digit_of_le_9)
  then have "digit_of c * 10 ^ length s \<le> 9 * 10 ^ length s"
    by simp
  with IH have "digit_of c * 10 ^ length s + nat_of_digits s < 10 * 10 ^ length s"
    by linarith
  then show ?case
    by (simp add: nat_of_digits_Cons)
qed

lemma digits_le_iff:
  "length s = length t \<Longrightarrow> list_all is_digit s \<Longrightarrow> list_all is_digit t \<Longrightarrow>
   s \<le> t \<longleftrightarrow> nat_of_digits s \<le> nat_of_digits t"
proof (induction s t rule: list_induct2)
  case Nil
  then show ?case by simp
next
  case (Cons c s d t)
  let ?p = "(10::nat) ^ length s"
  from Cons.prems have cd: "is_digit c" "is_digit d" and st: "list_all is_digit s" "list_all is_digit t"
    by simp_all
  have IH: "s \<le> t \<longleftrightarrow> nat_of_digits s \<le> nat_of_digits t"
    using Cons.IH st by simp
  have vs: "nat_of_digits s < ?p"
    using st(1) by (rule nat_of_digits_less)
  have vt: "nat_of_digits t < ?p"
    using nat_of_digits_less [OF st(2)] Cons.hyps by simp
  have val: "nat_of_digits (c # s) = digit_of c * ?p + nat_of_digits s"
    "nat_of_digits (d # t) = digit_of d * ?p + nat_of_digits t"
    using Cons.hyps by (simp_all add: nat_of_digits_Cons)
  consider "digit_of c < digit_of d" | "digit_of c = digit_of d" | "digit_of d < digit_of c"
    by linarith
  then show ?case
  proof cases
    case 1
    then have "(digit_of c + 1) * ?p \<le> digit_of d * ?p"
      by (intro mult_le_mono1) simp
    then have "nat_of_digits (c # s) \<le> nat_of_digits (d # t)"
      using vs val by (simp add: algebra_simps)
    moreover have "c < d"
      using 1 cd by (simp add: digit_of_less_iff)
    ultimately show ?thesis by simp
  next
    case 2
    then have "c = d" using cd by (simp add: digit_of_eq_iff)
    then show ?thesis using IH val by simp
  next
    case 3
    then have "(digit_of d + 1) * ?p \<le> digit_of c * ?p"
      by (intro mult_le_mono1) simp
    then have "\<not> nat_of_digits (c # s) \<le> nat_of_digits (d # t)"
      using vt val by (simp add: algebra_simps)
    moreover have "d < c"
      using 3 cd by (simp add: digit_of_less_iff)
    then have "\<not> c < d" "c \<noteq> d" by auto
    ultimately show ?thesis by simp
  qed
qed

lemma insort_key_cong_order:
  "\<forall>y \<in> set ys. f x \<le> f y \<longleftrightarrow> g x \<le> g y \<Longrightarrow> insort_key f x ys = insort_key g x ys"
  by (induction ys) auto

lemma sort_key_cong_order:
  "\<forall>x \<in> set xs. \<forall>y \<in> set xs. f x \<le> f y \<longleftrightarrow> g x \<le> g y \<Longrightarrow> sort_key f xs = sort_key g xs"
proof (induction xs)
  case Nil
  then show ?case by simp
next
  case (Cons x xs)
  then have IH: "sort_key f xs = sort_key g xs"
    by simp
  have "\<forall>y \<in> set (sort_key g xs). f x \<le> f y \<longleftrightarrow> g x \<le> g y"
    using Cons.prems by simp
  then show ?case
    using IH by (simp add: insort_key_cong_order)
qed

subsection \<open>Sorting by year\<close>

lemma sorted_reverse_descending: "sorted (rev (map key (sorted_reverse key xs)))"
  by (simp add: sorted_reverse_def rev_map)

lemma sorted_reverse_stable:
  "filter (\<lambda>x. key x = k) (sorted_reverse key xs) = filter (\<lambda>x. key x = k) xs"
proof -
  have "filter (\<lambda>x. key x = k) (sorted_reverse key xs)
        = rev (filter (\<lambda>x. key x = k) (sort_key key (rev xs)))"
    by (simp add: sorted_reverse_def rev_filter)
  also have "\<dots> = rev (filter (\<lambda>x. key x = k) (rev xs))"
    by (simp only: sort_key_stable)
  also have "\<dots> = filter (\<lambda>x. key x = k) xs"
    by (simp add: rev_filter)
  finally show ?thesis .
qed

lemma set_sorted_reverse: "set (sorted_reverse key xs) = set xs"
  by (simp add: sorted_reverse_def)

lemma keys_of_Inr: "keys_of rs = Inr ks \<Longrightarrow> map year_key rs = map Inr ks"
proof (induction rs arbitrary: ks)
  case Nil
  then show ?case by simp
next
  case (Cons r rs)
  then show ?case
    by (cases "year_key r"; cases "keys_of rs") auto
qed

lemma keys_of_zip:
  assumes "keys_of rs = Inr ks"
  shows "length ks = length rs" and "\<forall>p \<in> set (zip ks rs). year_key (snd p) = Inr (fst p)"
proof -
  from assms have m: "map year_key rs = map Inr ks"
    by (rule keys_of_Inr)
  then show len: "length ks = length rs"
    by (metis length_map)
  show "\<forall>p \<in> set (zip ks rs). year_key (snd p) = Inr (fst p)"
  proof
    fix p assume "p \<in> set (zip ks rs)"
    then obtain n where n: "n < length ks" "n < length rs" "p = (ks ! n, rs ! n)"
      by (auto simp: in_set_zip)
    have "year_key (rs ! n) = map year_key rs ! n"
      using n by simp
    also have "\<dots> = Inr (ks ! n)"
      using n m by simp
    finally show "year_key (snd p) = Inr (fst p)"
      using n by simp
  qed
qed

lemma keys_of_map_snd:
  "\<forall>p \<in> set ps. year_key (snd p) = Inr (fst p) \<Longrightarrow> keys_of (map snd ps) = Inr (map fst ps)"
  by (induction ps) auto

lemma kategori_loop_append:
  "kategori_loop i a kd html = and_then (kategori_loop i a kd []) (\<lambda>cs. Inr (html @ cs))"
proof (induction kd arbitrary: html)
  case Nil
  then show ?case by simp
next
  case (Cons kv kd)
  obtain key val where kv: "kv = (key, val)" by (cases kv)
  show ?case
  proof (cases "key = ''tidsskriftsartikkel''")
    case False
    have "kategori_loop i a (kv # kd) html = kategori_loop i a kd html"
      using False kv by simp
    also have "\<dots> = and_then (kategori_loop i a kd []) (\<lambda>cs. Inr (html @ cs))"
      by (rule Cons.IH)
    also have "kategori_loop i a kd [] = kategori_loop i a (kv # kd) []"
      using False kv by simp
    finally show ?thesis .
  next
    case True
    show ?thesis
    proof (cases "HTML_string_of i a")
      case (Inl e)
      then show ?thesis using True kv by simp
    next
      case (Inr s)
      have l: "kategori_loop i a (kv # kd) html = kategori_loop i a kd (html @ [s])"
        using True kv Inr by simp
      have r: "kategori_loop i a (kv # kd) [] = kategori_loop i a kd [s]"
        using True kv Inr by simp
      have 1: "kategori_loop i a kd (html @ [s])
               = and_then (kategori_loop i a kd []) (\<lambda>cs. Inr ((html @ [s]) @ cs))"
        by (rule Cons.IH)
      have 2: "kategori_loop i a kd [s] = and_then (kategori_loop i a kd []) (\<lambda>cs. Inr ([s] @ cs))"
        by (rule Cons.IH)
      show ?thesis
        unfolding l r 1 2 by (cases "kategori_loop i a kd []") simp_all
    qed
  qed
qed

lemma record_body_append:
  "record_body isupper i html = and_then (record_body isupper i []) (\<lambda>cs. Inr (html @ cs))"
proof (cases "authors_of isupper i")
  case (Inl e)
  then show ?thesis by (simp add: record_body_def)
next
  case (Inr a)
  show ?thesis
  proof (cases "kategoridata i")
    case None
    then show ?thesis using Inr by (simp add: record_body_def)
  next
    case (Some kd)
    then show ?thesis
      using Inr kategori_loop_append [of i a kd html] by (simp add: record_body_def)
  qed
qed

lemma record_loop_Cons_Inr:
  "record_body isupper i [] = Inr cs \<Longrightarrow>
   record_loop isupper (i # rest) html = record_loop isupper rest (html @ cs)"
  using record_body_append [of isupper i html] by simp

lemma sorted_map_mono_on:
  "sorted xs \<Longrightarrow> \<forall>x \<in> set xs. \<forall>y \<in> set xs. x \<le> y \<longrightarrow> f x \<le> f y \<Longrightarrow> sorted (map f xs)"
  by (induction xs) auto

lemma two_records_2014_2010:
  assumes rs: "rs = [b, a] \<or> rs = [a, b]"
    and a: "year_key a = Inr ''2014''" and b: "year_key b = Inr ''2010''"
    and ca: "record_body isupper a [] = Inr ca" and cb: "record_body isupper b [] = Inr cb"
  shows "data_sort rs = Inr [a, b]"
    and "html_codes_all_of isupper \<lparr>forskningsresultat = Some rs\<rparr> = Inr (ca @ cb)"
proof -
  from rs a b show sorted: "data_sort rs = Inr [a, b]"
    by (auto simp: data_sort_def sorted_reverse_def)
  have "record_loop isupper [a, b] [] = Inr (ca @ cb)"
    by (simp only: record_loop_Cons_Inr [OF ca] record_loop_Cons_Inr [OF cb] record_loop.simps(1)
        append_Nil)
  with sorted show "html_codes_all_of isupper \<lparr>forskningsresultat = Some rs\<rparr> = Inr (ca @ cb)"
    by (simp add: html_codes_all_of_def)
qed

lemma main_of_html_codes:
  assumes "pubs_by py_int net (AuthorStr name_of_user) (PyStr []) (PyStr []) ''TIDSSKRIFTPUBL'' []
             = (Inr data, sent)"
    and "html_codes_all_of isupper data = Inr cs"
  shows "main isupper py_int net =
    (Inr (name_of_user @ ''.html'',
          html_str_start @ concat (map (\<lambda>c. [CHR 0x09, CHR 0x09] @ c @ nl) cs) @ html_str_end),
     sent)"
  using assms by (simp add: main_def file_text_def)

text \<open>
  Claim C3, as the program has it. When every record has a year, \<open>data_sort\<close>
  returns the records with the records of each year in their original relative order,
  and when the years are written in the same number of digits the years of the result
  are non-increasing. For a record of 2014 and a record of 2010, in either input order,
  the record of 2014 comes first in the sorted list and in \<open>html_codes_all\<close>, and the
  text that the script writes into the file has the paragraphs of the record of 2014
  before the paragraphs of the record of 2010, between the head and the foot of the
  document.
\<close>

theorem data_sort_descending_stable:
  assumes "keys_of rs = Inr ks"
  shows "(\<exists>ss ys. data_sort rs = Inr ss \<and> keys_of ss = Inr ys
            \<and> (\<forall>y. filter (\<lambda>r. year_key r = Inr y) ss = filter (\<lambda>r. year_key r = Inr y) rs)
            \<and> ((\<forall>k \<in> set ks. list_all is_digit k \<and> length k = n)
                  \<longrightarrow> sorted (rev (map nat_of_digits ys))))
    \<and> (\<forall>a b ca cb. rs = [b, a] \<or> rs = [a, b] \<longrightarrow>
          year_key a = Inr ''2014'' \<longrightarrow> year_key b = Inr ''2010'' \<longrightarrow>
          record_body isupper a [] = Inr ca \<longrightarrow> record_body isupper b [] = Inr cb \<longrightarrow>
            data_sort rs = Inr [a, b]
          \<and> html_codes_all_of isupper \<lparr>forskningsresultat = Some rs\<rparr> = Inr (ca @ cb)
          \<and> (\<forall>sent. pubs_by py_int net (AuthorStr name_of_user) (PyStr []) (PyStr [])
                        ''TIDSSKRIFTPUBL'' [] = (Inr \<lparr>forskningsresultat = Some rs\<rparr>, sent) \<longrightarrow>
                main isupper py_int net =
                  (Inr (name_of_user @ ''.html'',
                        html_str_start
                        @ concat (map (\<lambda>c. [CHR 0x09, CHR 0x09] @ c @ nl) ca)
                        @ concat (map (\<lambda>c. [CHR 0x09, CHR 0x09] @ c @ nl) cb)
                        @ html_str_end),
                   sent)))"
proof -
  let ?ps = "sorted_reverse fst (zip ks rs)"
  let ?ss = "map snd ?ps"
  have len: "length ks = length rs"
    and zip: "\<forall>p \<in> set (zip ks rs). year_key (snd p) = Inr (fst p)"
    using keys_of_zip [OF assms] by simp_all
  then have ps: "\<forall>p \<in> set ?ps. year_key (snd p) = Inr (fst p)"
    by (simp only: set_sorted_reverse)
  have ds: "data_sort rs = Inr ?ss"
    using assms by (simp add: data_sort_def)
  have keys: "keys_of ?ss = Inr (map fst ?ps)"
    using ps by (rule keys_of_map_snd)
  have desc: "sorted (rev (map fst ?ps))"
    by (rule sorted_reverse_descending)
  have stable: "filter (\<lambda>r. year_key r = Inr y) ?ss = filter (\<lambda>r. year_key r = Inr y) rs" for y
  proof -
    have "filter (\<lambda>r. year_key r = Inr y) ?ss = map snd (filter (\<lambda>p. year_key (snd p) = Inr y) ?ps)"
      by (simp add: filter_map comp_def)
    also have "filter (\<lambda>p. year_key (snd p) = Inr y) ?ps = filter (\<lambda>p. fst p = y) ?ps"
      using ps by (intro filter_cong) auto
    also have "\<dots> = filter (\<lambda>p. fst p = y) (zip ks rs)"
      by (rule sorted_reverse_stable)
    also have "\<dots> = filter (\<lambda>p. year_key (snd p) = Inr y) (zip ks rs)"
      using zip by (intro filter_cong) auto
    also have "map snd \<dots> = filter (\<lambda>r. year_key r = Inr y) (map snd (zip ks rs))"
      by (simp add: filter_map comp_def)
    also have "map snd (zip ks rs) = rs"
      using len by simp
    finally show ?thesis .
  qed
  have numeric: "sorted (rev (map nat_of_digits (map fst ?ps)))"
    if digits: "\<forall>k \<in> set ks. list_all is_digit k \<and> length k = n"
  proof -
    have sub: "set (rev (map fst ?ps)) \<subseteq> set ks"
      using set_zip_leftD [of _ _ ks rs] by (auto simp: set_sorted_reverse)
    have "\<forall>x \<in> set (rev (map fst ?ps)). \<forall>y \<in> set (rev (map fst ?ps)).
            x \<le> y \<longrightarrow> nat_of_digits x \<le> nat_of_digits y"
    proof (intro ballI impI)
      fix x y assume "x \<in> set (rev (map fst ?ps))" "y \<in> set (rev (map fst ?ps))" "x \<le> y"
      with sub have "x \<in> set ks" "y \<in> set ks"
        by blast+
      with digits have "length x = length y" "list_all is_digit x" "list_all is_digit y"
        by simp_all
      with \<open>x \<le> y\<close> show "nat_of_digits x \<le> nat_of_digits y"
        by (simp add: digits_le_iff)
    qed
    with desc have "sorted (map nat_of_digits (rev (map fst ?ps)))"
      by (rule sorted_map_mono_on)
    then show ?thesis
      by (simp only: rev_map)
  qed
  from ds keys stable numeric
  have general: "\<exists>ss ys. data_sort rs = Inr ss \<and> keys_of ss = Inr ys
            \<and> (\<forall>y. filter (\<lambda>r. year_key r = Inr y) ss = filter (\<lambda>r. year_key r = Inr y) rs)
            \<and> ((\<forall>k \<in> set ks. list_all is_digit k \<and> length k = n)
                  \<longrightarrow> sorted (rev (map nat_of_digits ys)))"
    by blast
  have two: "data_sort rs = Inr [a, b]
          \<and> html_codes_all_of isupper \<lparr>forskningsresultat = Some rs\<rparr> = Inr (ca @ cb)
          \<and> (\<forall>sent. pubs_by py_int net (AuthorStr name_of_user) (PyStr []) (PyStr [])
                        ''TIDSSKRIFTPUBL'' [] = (Inr \<lparr>forskningsresultat = Some rs\<rparr>, sent) \<longrightarrow>
                main isupper py_int net =
                  (Inr (name_of_user @ ''.html'',
                        html_str_start
                        @ concat (map (\<lambda>c. [CHR 0x09, CHR 0x09] @ c @ nl) ca)
                        @ concat (map (\<lambda>c. [CHR 0x09, CHR 0x09] @ c @ nl) cb)
                        @ html_str_end),
                   sent))"
    if h: "rs = [b, a] \<or> rs = [a, b]" "year_key a = Inr ''2014''" "year_key b = Inr ''2010''"
      "record_body isupper a [] = Inr ca" "record_body isupper b [] = Inr cb"
    for a b ca cb
  proof (intro conjI allI impI)
    show "data_sort rs = Inr [a, b]"
      using h by (rule two_records_2014_2010(1))
    show codes: "html_codes_all_of isupper \<lparr>forskningsresultat = Some rs\<rparr> = Inr (ca @ cb)"
      using h by (rule two_records_2014_2010(2))
    fix sent
    assume "pubs_by py_int net (AuthorStr name_of_user) (PyStr []) (PyStr []) ''TIDSSKRIFTPUBL'' []
              = (Inr \<lparr>forskningsresultat = Some rs\<rparr>, sent)"
    from main_of_html_codes [OF this codes]
    show "main isupper py_int net =
                  (Inr (name_of_user @ ''.html'',
                        html_str_start
                        @ concat (map (\<lambda>c. [CHR 0x09, CHR 0x09] @ c @ nl) ca)
                        @ concat (map (\<lambda>c. [CHR 0x09, CHR 0x09] @ c @ nl) cb)
                        @ html_str_end),
                   sent)"
      by simp
  qed
  from general two show ?thesis
    by blast
qed

theorem data_sort_descending_stable_witness:
  "data_sort [article_2010, article_T] = Inr [article_T, article_2010]
   \<and> html_codes_all_of isupper_ascii \<lparr>forskningsresultat = Some [article_2010, article_T]\<rparr>
     = Inr [''<p> Vik JO (2014). T <em>J</em> <strong>(53)</strong> e9379 http://dx.doi.org/10.1/x</p>'',
            ''<p> Gjuvsland AB, Plahte E (2010). Allele Interaction <em>PLoS ONE</em> <strong>(5)</strong> e9379 http://dx.doi.org/10.1371/journal.pone.0009379</p>'']
   \<and> main isupper_ascii py_int_digits registry_ok
     = (Inr (''Jon Olav Vik.html'',
             html_str_start
             @ [CHR 0x09, CHR 0x09]
             @ ''<p> Vik JO (2014). T <em>J</em> <strong>(53)</strong> e9379 http://dx.doi.org/10.1/x</p>''
             @ nl
             @ [CHR 0x09, CHR 0x09]
             @ ''<p> Gjuvsland AB, Plahte E (2010). Allele Interaction <em>PLoS ONE</em> <strong>(5)</strong> e9379 http://dx.doi.org/10.1371/journal.pone.0009379</p>''
             @ nl
             @ html_str_end),
        [persons_request (AuthorStr name_of_user),
         hent_request (PyInt 22311) (PyStr []) (PyStr []) ''TIDSSKRIFTPUBL''])"
proof -
  have k: "keys_of [article_2010, article_T] = Inr [''2010'', ''2014'']"
    by (simp add: year_key_def article_2010_def article_T_def)
  have a: "year_key article_T = Inr ''2014''" and b: "year_key article_2010 = Inr ''2010''"
    by (simp_all add: year_key_def article_2010_def article_T_def)
  have ca: "record_body isupper_ascii article_T [] =
      Inr [''<p> Vik JO (2014). T <em>J</em> <strong>(53)</strong> e9379 http://dx.doi.org/10.1/x</p>'']"
    by (simp add: record_body_def article_T_def authors_of_def authors_of_person_def entry_def
        Uppercase_firstname_def isupper_ascii_def HTML_string_of_def tidsskriftsartikkel_of_def)
  have cb: "record_body isupper_ascii article_2010 [] =
      Inr [''<p> Gjuvsland AB, Plahte E (2010). Allele Interaction <em>PLoS ONE</em> <strong>(5)</strong> e9379 http://dx.doi.org/10.1371/journal.pone.0009379</p>'']"
    by (simp add: record_body_def article_2010_def authors_of_def authors_of_person_def entry_def
        Uppercase_firstname_def isupper_ascii_def HTML_string_of_def tidsskriftsartikkel_of_def
        drop_last2_def)
  have d: "\<forall>k \<in> set [''2010'', ''2014'']. list_all is_digit k \<and> length k = 4"
    by (simp add: is_digit_def)
  have p: "pubs_by py_int_digits registry_ok (AuthorStr name_of_user) (PyStr []) (PyStr [])
             ''TIDSSKRIFTPUBL'' []
           = (Inr \<lparr>forskningsresultat = Some [article_2010, article_T]\<rparr>,
              [persons_request (AuthorStr name_of_user),
               hent_request (PyInt 22311) (PyStr []) (PyStr []) ''TIDSSKRIFTPUBL''])"
    by (simp add: pubs_by_def cristin_person_id_def int_of_def py_int_digits_def name_of_user_def
        is_digit_def registry_ok_def)
  from data_sort_descending_stable [OF k, where isupper = isupper_ascii and n = 4
      and py_int = py_int_digits and net = registry_ok] a b ca cb d p
  show ?thesis by (simp add: name_of_user_def)
qed

text \<open>
  Claim C3 as it is written fails on two lists: a record without year makes the sort
  raise, and of the years \<open>1000\<close> and \<open>999\<close> the smaller one is put first.
\<close>

theorem data_sort_counterexample:
  "data_sort [article_2010, article_no_ar] = Inl (KeyError ''ar'')
   \<and> data_sort [year_only ''1000'', year_only ''999'']
       = Inr [year_only ''999'', year_only ''1000'']
   \<and> nat_of_digits ''999'' < nat_of_digits ''1000''"
  by (simp add: data_sort_def sorted_reverse_def year_key_def year_only_def article_2010_def
      article_no_ar_def nat_of_digits_def digit_of_def)

subsection \<open>The order of strings and the order of numbers\<close>

text \<open>
  Claim C9, as the program has it. The sort compares the years as strings. When all the
  years of the list are written in the same number of digits, at least one, sorting by
  the strings and sorting by the numbers give the same list. With years of different
  lengths the two can differ: \<open>999\<close> is put before \<open>1000\<close> by the program and after
  it by the numbers.
\<close>

theorem string_order_vs_numeric_order:
  assumes "keys_of rs = Inr ks"
    and "\<forall>k \<in> set ks. list_all is_digit k \<and> length k = n" and "0 < n"
  shows "data_sort rs = numeric_data_sort rs
    \<and> data_sort [year_only ''1000'', year_only ''999'']
        = Inr [year_only ''999'', year_only ''1000'']
    \<and> numeric_data_sort [year_only ''1000'', year_only ''999'']
        = Inr [year_only ''1000'', year_only ''999'']"
proof (intro conjI)
  have "\<forall>p \<in> set (rev (zip ks rs)). \<forall>q \<in> set (rev (zip ks rs)).
          fst p \<le> fst q \<longleftrightarrow> nat_of_digits (fst p) \<le> nat_of_digits (fst q)"
  proof (intro ballI)
    fix p q assume "p \<in> set (rev (zip ks rs))" "q \<in> set (rev (zip ks rs))"
    then have "fst p \<in> set ks" "fst q \<in> set ks"
      using set_zip_leftD [of "fst p" "snd p" ks rs] set_zip_leftD [of "fst q" "snd q" ks rs]
      by simp_all
    with assms(2) show "fst p \<le> fst q \<longleftrightarrow> nat_of_digits (fst p) \<le> nat_of_digits (fst q)"
      by (intro digits_le_iff) auto
  qed
  then have "sort_key fst (rev (zip ks rs)) = sort_key (\<lambda>p. nat_of_digits (fst p)) (rev (zip ks rs))"
    by (rule sort_key_cong_order)
  then show "data_sort rs = numeric_data_sort rs"
    using assms(1) by (simp add: data_sort_def numeric_data_sort_def sorted_reverse_def)
next
  show "data_sort [year_only ''1000'', year_only ''999''] = Inr [year_only ''999'', year_only ''1000'']"
    by (simp add: data_sort_def year_key_def year_only_def sorted_reverse_def)
next
  show "numeric_data_sort [year_only ''1000'', year_only ''999'']
        = Inr [year_only ''1000'', year_only ''999'']"
    by (simp add: numeric_data_sort_def year_key_def year_only_def sorted_reverse_def
        nat_of_digits_def digit_of_def)
qed

theorem string_order_vs_numeric_order_witness:
  "data_sort [year_only ''2010'', year_only ''2014'', year_only ''2012'']
     = Inr [year_only ''2014'', year_only ''2012'', year_only ''2010'']
   \<and> numeric_data_sort [year_only ''2010'', year_only ''2014'', year_only ''2012'']
     = Inr [year_only ''2014'', year_only ''2012'', year_only ''2010'']"
proof -
  let ?rs = "[year_only ''2010'', year_only ''2014'', year_only ''2012'']"
  have k: "keys_of ?rs = Inr [''2010'', ''2014'', ''2012'']"
    by (simp add: year_key_def year_only_def)
  have d: "\<forall>k \<in> set [''2010'', ''2014'', ''2012'']. list_all is_digit k \<and> length k = 4"
    by (simp add: is_digit_def)
  have "data_sort ?rs = Inr [year_only ''2014'', year_only ''2012'', year_only ''2010'']"
    by (simp add: data_sort_def year_key_def year_only_def sorted_reverse_def)
  then show ?thesis
    using string_order_vs_numeric_order [OF k d] by simp
qed

text \<open>
  Equal length is not necessary for the two orders to agree: the years \<open>1\<close> and
  \<open>10\<close> have different lengths and are sorted alike as strings and as numbers.
\<close>

theorem equal_length_counterexample:
  "data_sort [year_only ''1'', year_only ''10''] = Inr [year_only ''10'', year_only ''1'']
   \<and> numeric_data_sort [year_only ''1'', year_only ''10''] = Inr [year_only ''10'', year_only ''1'']
   \<and> length ''1'' \<noteq> length ''10''"
  by (simp add: data_sort_def numeric_data_sort_def year_key_def year_only_def sorted_reverse_def
      nat_of_digits_def digit_of_def)

subsection \<open>Exceptions in the loop of the script\<close>

lemma record_loop_append:
  "record_loop isupper (pre @ rest) html =
     and_then (record_loop isupper pre html) (\<lambda>h. record_loop isupper rest h)"
proof (induction pre arbitrary: html)
  case Nil
  then show ?case by simp
next
  case (Cons i pre)
  then show ?case
    by (cases "record_body isupper i html") simp_all
qed

lemma keys_of_append_raises:
  "keys_of pre = Inr ks \<Longrightarrow> year_key i = Inl e \<Longrightarrow> keys_of (pre @ i # rest) = Inl e"
proof (induction pre arbitrary: ks)
  case Nil
  then show ?case by simp
next
  case (Cons r pre)
  then show ?case
    by (cases "year_key r"; cases "keys_of pre") simp_all
qed

text \<open>
  Claim C2, as the program has it. An exception raised while one record is formatted is
  not caught: it ends the loop, whatever the remaining records are, and no list of
  citations results. A journal article without title raises \<^verbatim>\<open>KeyError('tittel')\<close>
  in the loop body; a record without year raises \<^verbatim>\<open>KeyError('ar')\<close> earlier, in
  the sort.
\<close>

theorem malformed_record_aborts:
  "(data_sort rs = Inr (pre @ i # rest) \<longrightarrow> record_loop isupper pre [] = Inr h \<longrightarrow>
      record_body isupper i h = Inl e \<longrightarrow>
        html_codes_all_of isupper \<lparr>forskningsresultat = Some rs\<rparr> = Inl e)
   \<and> (fellesdata i = Some f \<longrightarrow> tittel f = None \<longrightarrow> authors_of isupper i = Inr a \<longrightarrow>
      kategoridata i = Some kd \<longrightarrow> ''tidsskriftsartikkel'' \<in> fst ` set kd \<longrightarrow>
        record_body isupper i h = Inl (KeyError ''tittel''))
   \<and> (keys_of pre = Inr ks \<longrightarrow> fellesdata i = Some f \<longrightarrow> ar f = None \<longrightarrow>
        html_codes_all_of isupper \<lparr>forskningsresultat = Some (pre @ i # rest)\<rparr>
          = Inl (KeyError ''ar''))"
proof (intro conjI impI)
  assume "data_sort rs = Inr (pre @ i # rest)" "record_loop isupper pre [] = Inr h"
    "record_body isupper i h = Inl e"
  then show "html_codes_all_of isupper \<lparr>forskningsresultat = Some rs\<rparr> = Inl e"
    by (simp add: html_codes_all_of_def record_loop_append)
next
  assume "fellesdata i = Some f" "tittel f = None" "authors_of isupper i = Inr a"
    "kategoridata i = Some kd" "''tidsskriftsartikkel'' \<in> fst ` set kd"
  moreover from this have "HTML_string_of i a = Inl (KeyError ''tittel'')"
    by (simp add: HTML_string_of_def)
  ultimately show "record_body isupper i h = Inl (KeyError ''tittel'')"
    by (simp add: record_body_def kategori_loop_raises)
next
  assume "keys_of pre = Inr ks" "fellesdata i = Some f" "ar f = None"
  moreover from this have "year_key i = Inl (KeyError ''ar'')"
    by (simp add: year_key_def)
  ultimately have "keys_of (pre @ i # rest) = Inl (KeyError ''ar'')"
    by (simp add: keys_of_append_raises)
  then show "html_codes_all_of isupper \<lparr>forskningsresultat = Some (pre @ i # rest)\<rparr>
          = Inl (KeyError ''ar'')"
    by (simp add: html_codes_all_of_def data_sort_def)
qed

theorem malformed_record_aborts_witness:
  "html_codes_all_of isupper_ascii \<lparr>forskningsresultat = Some [article_2010, article_no_tittel]\<rparr>
     = Inl (KeyError ''tittel'')
   \<and> record_body isupper_ascii article_no_tittel [] = Inl (KeyError ''tittel'')
   \<and> html_codes_all_of isupper_ascii \<lparr>forskningsresultat = Some [article_2010, article_no_ar]\<rparr>
     = Inl (KeyError ''ar'')"
proof -
  have s: "data_sort [article_2010, article_no_tittel] = Inr ([] @ article_no_tittel # [article_2010])"
    by (simp add: data_sort_def sorted_reverse_def year_key_def article_2010_def
        article_no_tittel_def)
  have l: "record_loop isupper_ascii [] [] = Inr []"
    by simp
  have f: "fellesdata article_no_tittel = Some \<lparr>tittel = None, ar = Some ''2014'',
      person = Some (PersonDict (entry ''Vik'' ''Jon Olav''))\<rparr>"
    by (simp add: article_no_tittel_def)
  have t: "tittel \<lparr>tittel = None, ar = Some ''2014'',
      person = Some (PersonDict (entry ''Vik'' ''Jon Olav''))\<rparr> = None"
    by simp
  have a: "authors_of isupper_ascii article_no_tittel = Inr ''Vik JO''"
    by (simp add: article_no_tittel_def authors_of_def authors_of_person_def entry_def
        Uppercase_firstname_def isupper_ascii_def)
  have kd: "kategoridata article_no_tittel = Some [(''tidsskriftsartikkel'',
         \<lparr>tidsskrift = Some \<lparr>navn = Some ''J''\<rparr>, artikkelnr = Some ''e9379'',
          volum = Some ''53'', doi = Some ''10.1/x''\<rparr>)]"
    by (simp add: article_no_tittel_def)
  have k: "keys_of [article_2010] = Inr [''2010'']"
    by (simp add: year_key_def article_2010_def)
  have f': "fellesdata article_no_ar = Some \<lparr>tittel = Some ''T'', ar = None,
      person = Some (PersonDict (entry ''Vik'' ''Jon Olav''))\<rparr>"
    by (simp add: article_no_ar_def)
  from malformed_record_aborts [where rs = "[article_2010, article_no_tittel]" and pre = "[]"
      and i = article_no_tittel and rest = "[article_2010]" and isupper = isupper_ascii
      and h = "[]" and e = "KeyError ''tittel''" and a = "''Vik JO''"
      and f = "\<lparr>tittel = None, ar = Some ''2014'',
        person = Some (PersonDict (entry ''Vik'' ''Jon Olav''))\<rparr>"
      and kd = "[(''tidsskriftsartikkel'',
         \<lparr>tidsskrift = Some \<lparr>navn = Some ''J''\<rparr>, artikkelnr = Some ''e9379'',
          volum = Some ''53'', doi = Some ''10.1/x''\<rparr>)]"]
    s l f t a kd
  have 1: "record_body isupper_ascii article_no_tittel [] = Inl (KeyError ''tittel'')"
    and 2: "html_codes_all_of isupper_ascii \<lparr>forskningsresultat = Some [article_2010, article_no_tittel]\<rparr>
     = Inl (KeyError ''tittel'')"
    by simp_all
  from malformed_record_aborts [where pre = "[article_2010]" and i = article_no_ar and rest = "[]"
      and isupper = isupper_ascii and ks = "[''2010'']"
      and f = "\<lparr>tittel = Some ''T'', ar = None,
        person = Some (PersonDict (entry ''Vik'' ''Jon Olav''))\<rparr>"] k f'
  have 3: "html_codes_all_of isupper_ascii \<lparr>forskningsresultat = Some [article_2010, article_no_ar]\<rparr>
     = Inl (KeyError ''ar'')"
    by simp
  from 1 2 3 show ?thesis by simp
qed

text \<open>
  Claim C2 as it is written fails: the article of 2010 can be formatted, and still
  the list with the article without title yields no citation but the exception; the
  script ends with it and writes no file.
\<close>

theorem missing_tittel_counterexample:
  "record_body isupper_ascii article_2010 [] =
      Inr [''<p> Gjuvsland AB, Plahte E (2010). Allele Interaction <em>PLoS ONE</em> <strong>(5)</strong> e9379 http://dx.doi.org/10.1371/journal.pone.0009379</p>'']
   \<and> html_codes_all_of isupper_ascii \<lparr>forskningsresultat = Some [article_no_tittel, article_2010]\<rparr>
      = Inl (KeyError ''tittel'')
   \<and> fst (main isupper_ascii py_int_digits registry_no_tittel) = Inl (KeyError ''tittel'')"
  by (simp add: main_def pubs_by_def cristin_person_id_def int_of_def py_int_digits_def
      name_of_user_def is_digit_def registry_no_tittel_def persons_request_def hent_request_def
      html_codes_all_of_def data_sort_def sorted_reverse_def year_key_def
      record_body_def article_2010_def article_no_tittel_def authors_of_def authors_of_person_def
      entry_def Uppercase_firstname_def isupper_ascii_def HTML_string_of_def
      tidsskriftsartikkel_of_def drop_last2_def)

subsection \<open>The resolver\<close>

text \<open>
  Claim C7. When \<^verbatim>\<open>int(author)\<close> succeeds, for an integer or for a string that
  \<^verbatim>\<open>int\<close> parses, \<^verbatim>\<open>cristin_person_id\<close> returns that integer and sends no
  request: the list of requests is unchanged, whatever the registry is.
\<close>

theorem numeric_author_no_request:
  "cristin_person_id py_int net (AuthorInt n) sent = (Inr (PyInt n), sent)
   \<and> (py_int s = Some n \<longrightarrow>
        cristin_person_id py_int net (AuthorStr s) sent = (Inr (PyInt n), sent))"
  by (simp add: cristin_person_id_def int_of_def)

theorem numeric_author_no_request_witness:
  "py_int_digits ''22311'' = Some 22311
   \<and> cristin_person_id py_int_digits registry_down (AuthorStr ''22311'') [] = (Inr (PyInt 22311), [])"
proof -
  have p: "py_int_digits ''22311'' = Some 22311"
    by (simp add: py_int_digits_def is_digit_def nat_of_digits_def digit_of_def)
  with numeric_author_no_request [of py_int_digits registry_down 22311 "[]" "''22311''"]
  show ?thesis by simp
qed

text \<open>
  Claim C8. For a name that \<^verbatim>\<open>int\<close> rejects and a name search that answers with
  a list of candidates, exactly one request is sent; an empty list gives
  \<^verbatim>\<open>None\<close> and no exception, and a list whose first candidate has the key
  \<^verbatim>\<open>cristin_person_id\<close> gives the value under that key.
\<close>

theorem name_search_result:
  assumes "py_int s = None"
    and "get_persons net (persons_request (AuthorStr s)) = Inr r"
    and "json r = Inr candidates"
  shows "(candidates = [] \<longrightarrow>
            cristin_person_id py_int net (AuthorStr s) sent
              = (Inr PyNone, sent @ [persons_request (AuthorStr s)]))
    \<and> (\<forall>c cs v. candidates = c # cs \<longrightarrow> map_of c ''cristin_person_id'' = Some v \<longrightarrow>
            cristin_person_id py_int net (AuthorStr s) sent
              = (Inr v, sent @ [persons_request (AuthorStr s)]))"
  using assms by (auto simp: cristin_person_id_def int_of_def Let_def)

theorem name_search_result_witness:
  "cristin_person_id py_int_digits registry_unknown (AuthorStr ''Does not exist'') []
     = (Inr PyNone, [persons_request (AuthorStr ''Does not exist'')])
   \<and> cristin_person_id py_int_digits registry_ok (AuthorStr ''Jon Olav Vik'') []
     = (Inr (PyInt 22311), [persons_request (AuthorStr ''Jon Olav Vik'')])"
proof -
  have p: "py_int_digits ''Does not exist'' = None" "py_int_digits ''Jon Olav Vik'' = None"
    by (simp_all add: py_int_digits_def is_digit_def)
  have u: "get_persons registry_unknown (persons_request (AuthorStr ''Does not exist''))
           = Inr \<lparr>status_code = 200, json = Inr []\<rparr>"
    by (simp add: registry_unknown_def)
  have k: "get_persons registry_ok (persons_request (AuthorStr ''Jon Olav Vik''))
           = Inr \<lparr>status_code = 200, json = Inr [[(''cristin_person_id'', PyInt 22311)]]\<rparr>"
    by (simp add: registry_ok_def)
  from name_search_result [where py_int = py_int_digits and s = "''Does not exist''"
      and net = registry_unknown and r = "\<lparr>status_code = 200, json = Inr []\<rparr>"
      and candidates = "[]" and sent = "[]"] p(1) u
  have 1: "cristin_person_id py_int_digits registry_unknown (AuthorStr ''Does not exist'') []
     = (Inr PyNone, [persons_request (AuthorStr ''Does not exist'')])"
    by simp
  from name_search_result [where py_int = py_int_digits and s = "''Jon Olav Vik''"
      and net = registry_ok
      and r = "\<lparr>status_code = 200, json = Inr [[(''cristin_person_id'', PyInt 22311)]]\<rparr>"
      and candidates = "[[(''cristin_person_id'', PyInt 22311)]]" and sent = "[]"] p(2) k
  have 2: "cristin_person_id py_int_digits registry_ok (AuthorStr ''Jon Olav Vik'') []
     = (Inr (PyInt 22311), [persons_request (AuthorStr ''Jon Olav Vik'')])"
    by simp
  from 1 2 show ?thesis by simp
qed

subsection \<open>Failures of the registry\<close>

lemma cristin_person_id_with_status:
  "cristin_person_id py_int (with_status g net) author sent = cristin_person_id py_int net author sent"
  by (cases "get_persons net (persons_request author)")
     (simp_all add: cristin_person_id_def with_status_def Let_def
        split: sum.splits error.splits)

lemma get_resultater_with_status:
  "get_resultater (with_status g net) url =
     (case get_resultater net url of
        Inl e \<Rightarrow> Inl e
      | Inr r \<Rightarrow> Inr (r\<lparr>status_code := g (status_code r)\<rparr>))"
  by (simp add: with_status_def)

lemma pubs_by_with_status:
  "pubs_by py_int (with_status g net) author fra til hovedkategori sent
     = pubs_by py_int net author fra til hovedkategori sent"
proof (cases "cristin_person_id py_int net author sent")
  case (Pair res sent1)
  show ?thesis
  proof (cases res)
    case (Inl e)
    then show ?thesis
      using Pair by (simp add: pubs_by_def cristin_person_id_with_status)
  next
    case (Inr cpid)
    then show ?thesis
      using Pair
      by (cases "get_resultater net (hent_request cpid fra til hovedkategori)")
         (simp_all add: pubs_by_def cristin_person_id_with_status get_resultater_with_status
            Let_def)
  qed
qed

lemma main_with_status: "main isupper py_int (with_status g net) = main isupper py_int net"
  by (simp add: main_def pubs_by_with_status)

text \<open>
  Claim C1, as the program has it. An exception of the resolver (the name search cannot
  be reached, or its body does not decode) is the result of \<^verbatim>\<open>pubs_by\<close>, and no
  publication request is sent. When the resolver returns a value, \<^verbatim>\<open>None\<close>
  included, the publication request is sent with that value as \<^verbatim>\<open>lopenr\<close>; an
  exception of that request is the result, and otherwise the result is what
  \<^verbatim>\<open>json()\<close> gives. An exception of \<^verbatim>\<open>pubs_by\<close> ends the script. The
  status of a response has no influence: \<^verbatim>\<open>pubs_by\<close> and the script do the same
  on a registry and on the registry with every status changed.
\<close>

theorem pubs_by_outcome:
  "(cristin_person_id py_int net author sent = (Inl e, sent1) \<longrightarrow>
      pubs_by py_int net author fra til hovedkategori sent = (Inl e, sent1))
   \<and> (cristin_person_id py_int net author sent = (Inr cpid, sent1) \<longrightarrow>
        snd (pubs_by py_int net author fra til hovedkategori sent)
          = sent1 @ [hent_request cpid fra til hovedkategori]
      \<and> (get_resultater net (hent_request cpid fra til hovedkategori) = Inl e \<longrightarrow>
           fst (pubs_by py_int net author fra til hovedkategori sent) = Inl e)
      \<and> (get_resultater net (hent_request cpid fra til hovedkategori) = Inr r \<longrightarrow>
           fst (pubs_by py_int net author fra til hovedkategori sent) = json r))
   \<and> (fst (pubs_by py_int net (AuthorStr name_of_user) (PyStr []) (PyStr []) ''TIDSSKRIFTPUBL'' [])
        = Inl e \<longrightarrow> fst (main isupper py_int net) = Inl e)
   \<and> pubs_by py_int (with_status g net) author fra til hovedkategori sent
        = pubs_by py_int net author fra til hovedkategori sent
   \<and> main isupper py_int (with_status g net) = main isupper py_int net"
proof -
  have "cristin_person_id py_int net author sent = (Inl e, sent1) \<longrightarrow>
      pubs_by py_int net author fra til hovedkategori sent = (Inl e, sent1)"
    by (simp add: pubs_by_def)
  moreover have "cristin_person_id py_int net author sent = (Inr cpid, sent1) \<longrightarrow>
        snd (pubs_by py_int net author fra til hovedkategori sent)
          = sent1 @ [hent_request cpid fra til hovedkategori]
      \<and> (get_resultater net (hent_request cpid fra til hovedkategori) = Inl e \<longrightarrow>
           fst (pubs_by py_int net author fra til hovedkategori sent) = Inl e)
      \<and> (get_resultater net (hent_request cpid fra til hovedkategori) = Inr r \<longrightarrow>
           fst (pubs_by py_int net author fra til hovedkategori sent) = json r)"
    by (auto simp: pubs_by_def Let_def split: sum.splits)
  moreover have "fst (pubs_by py_int net (AuthorStr name_of_user) (PyStr []) (PyStr [])
        ''TIDSSKRIFTPUBL'' []) = Inl e \<longrightarrow> fst (main isupper py_int net) = Inl e"
    by (auto simp: main_def split: prod.splits sum.splits)
  ultimately show ?thesis
    by (simp only: pubs_by_with_status main_with_status simp_thms)
qed

theorem pubs_by_outcome_witness:
  "pubs_by py_int_digits registry_down (AuthorStr name_of_user) (PyStr []) (PyStr [])
      ''TIDSSKRIFTPUBL'' []
     = (Inl RequestException, [persons_request (AuthorStr name_of_user)])
   \<and> fst (main isupper_ascii py_int_digits registry_down) = Inl RequestException
   \<and> fst (pubs_by py_int_digits registry_down (AuthorInt 22311) (PyInt 2014) (PyInt 2014)
            ''TIDSSKRIFTPUBL'' []) = Inl RequestException
   \<and> pubs_by py_int_digits registry_ok (AuthorInt 22311) (PyInt 2014) (PyInt 2014)
        ''TIDSSKRIFTPUBL'' []
     = (Inr \<lparr>forskningsresultat = Some [article_2010, article_T]\<rparr>,
        [hent_request (PyInt 22311) (PyInt 2014) (PyInt 2014) ''TIDSSKRIFTPUBL''])"
proof -
  have c: "cristin_person_id py_int_digits registry_down (AuthorStr name_of_user) []
           = (Inl RequestException, [persons_request (AuthorStr name_of_user)])"
    by (simp add: cristin_person_id_def int_of_def py_int_digits_def name_of_user_def
        is_digit_def registry_down_def)
  from pubs_by_outcome [where py_int = py_int_digits and net = registry_down
      and author = "AuthorStr name_of_user" and sent = "[]" and e = RequestException
      and fra = "PyStr []" and til = "PyStr []" and hovedkategori = "''TIDSSKRIFTPUBL''"
      and isupper = isupper_ascii
      and ?sent1.0 = "[persons_request (AuthorStr name_of_user)]"] c
  have 1: "pubs_by py_int_digits registry_down (AuthorStr name_of_user) (PyStr []) (PyStr [])
      ''TIDSSKRIFTPUBL'' [] = (Inl RequestException, [persons_request (AuthorStr name_of_user)])"
    and 2: "fst (main isupper_ascii py_int_digits registry_down) = Inl RequestException"
    by simp_all
  have d: "cristin_person_id py_int_digits registry_down (AuthorInt 22311) [] = (Inr (PyInt 22311), [])"
    "cristin_person_id py_int_digits registry_ok (AuthorInt 22311) [] = (Inr (PyInt 22311), [])"
    by (simp_all add: cristin_person_id_def int_of_def)
  have g: "get_resultater registry_down (hent_request (PyInt 22311) (PyInt 2014) (PyInt 2014)
      ''TIDSSKRIFTPUBL'') = Inl RequestException"
    by (simp add: registry_down_def)
  have g': "get_resultater registry_ok (hent_request (PyInt 22311) (PyInt 2014) (PyInt 2014)
      ''TIDSSKRIFTPUBL'') = Inr \<lparr>status_code = 200,
          json = Inr \<lparr>forskningsresultat = Some [article_2010, article_T]\<rparr>\<rparr>"
    by (simp add: registry_ok_def)
  from pubs_by_outcome [where py_int = py_int_digits and net = registry_down
      and author = "AuthorInt 22311" and sent = "[]" and e = RequestException
      and fra = "PyInt 2014" and til = "PyInt 2014" and hovedkategori = "''TIDSSKRIFTPUBL''"
      and cpid = "PyInt 22311" and ?sent1.0 = "[]"] d(1) g
  have 3: "fst (pubs_by py_int_digits registry_down (AuthorInt 22311) (PyInt 2014) (PyInt 2014)
            ''TIDSSKRIFTPUBL'' []) = Inl RequestException"
    by simp
  from pubs_by_outcome [where py_int = py_int_digits and net = registry_ok
      and author = "AuthorInt 22311" and sent = "[]"
      and fra = "PyInt 2014" and til = "PyInt 2014" and hovedkategori = "''TIDSSKRIFTPUBL''"
      and cpid = "PyInt 22311" and ?sent1.0 = "[]"
      and r = "\<lparr>status_code = 200,
          json = Inr \<lparr>forskningsresultat = Some [article_2010, article_T]\<rparr>\<rparr>"] d(2) g'
  have 4: "pubs_by py_int_digits registry_ok (AuthorInt 22311) (PyInt 2014) (PyInt 2014)
        ''TIDSSKRIFTPUBL'' []
     = (Inr \<lparr>forskningsresultat = Some [article_2010, article_T]\<rparr>,
        [hent_request (PyInt 22311) (PyInt 2014) (PyInt 2014) ''TIDSSKRIFTPUBL''])"
    by (simp add: prod_eq_iff)
  from 1 2 3 4 show ?thesis by simp
qed

text \<open>
  Claim C1 as it is written fails on a name without candidates and on a response with
  an error status: the resolver returns \<^verbatim>\<open>None\<close>, \<^verbatim>\<open>pubs_by\<close> sends the
  publication request with \<^verbatim>\<open>lopenr=None\<close>, the response has status 404 and a body
  that decodes, no exception is raised, and the script writes a file without citations.
\<close>

theorem unresolved_author_counterexample:
  "cristin_person_id py_int_digits registry_unknown (AuthorStr name_of_user) []
     = (Inr PyNone, [persons_request (AuthorStr name_of_user)])
   \<and> get_resultater registry_unknown (hent_request PyNone (PyStr []) (PyStr []) ''TIDSSKRIFTPUBL'')
     = Inr \<lparr>status_code = 404, json = Inr \<lparr>forskningsresultat = Some []\<rparr>\<rparr>
   \<and> pubs_by py_int_digits registry_unknown (AuthorStr name_of_user) (PyStr []) (PyStr [])
        ''TIDSSKRIFTPUBL'' []
     = (Inr \<lparr>forskningsresultat = Some []\<rparr>,
        [persons_request (AuthorStr name_of_user),
         hent_request PyNone (PyStr []) (PyStr []) ''TIDSSKRIFTPUBL''])
   \<and> fst (main isupper_ascii py_int_digits registry_unknown)
     = Inr (''Jon Olav Vik.html'', html_str_start @ html_str_end)"
  by (simp add: main_def pubs_by_def cristin_person_id_def int_of_def py_int_digits_def
      name_of_user_def is_digit_def registry_unknown_def html_codes_all_of_def data_sort_def
      sorted_reverse_def file_text_def)

end
